theory Spec2Isabelle
  imports Complex_Main "HOL-Library.AList"
begin

section \<open>Exceptions\<close>

text \<open>
  Python exceptions are values. A call that can raise returns \<open>exn + 'a\<close>, with
  \<open>Inl\<close> for the exception that propagates.
\<close>

datatype exn =
    KeyError string
  | ZeroDivisionError
  | AttributeError string
  | IndexError
  | TypeError string
  | Exception string

section \<open>The control loop of \<open>virtual_accelerator.main\<close>\<close>

text \<open>
  The loop at the end of \<open>main\<close>:
  \<^verbatim>\<open>
    while not_ctrlc():
        loop_start_time = time.time()
        now = epics_now()
        new_params = server.get_settings()
        server.update_readbacks()
        model.update_optics(new_params)
        model.track()
        new_measurements = model.get_measurements()
        server.update_measurements(new_measurements)
        server.update()
        loop_time_taken = time.time() - loop_start_time
        sleep_time = update_period - loop_time_taken
        if sleep_time < 0.0:
            print('Warning: Update took longer than refresh rate.')
        else:
            time.sleep(sleep_time)
    print('Exiting. Thank you for using our virtual accelerator!')
  \<close>
  The text of the classes \<open>Server\<close> (module \<open>ca_server\<close>) and \<open>OrbitModel\<close> is not part
  of the sources under study, so their methods are parameters of the model: a record of functions
  over an abstract server state \<open>'s\<close> and model state \<open>'m\<close>, with settings \<open>'p\<close> and
  measurements \<open>'o\<close>. Each of them may raise.
\<close>

record ('s, 'm, 'p, 'o) collaborators =
  srv_get_settings :: "'s \<Rightarrow> exn + 'p"
  srv_update_readbacks :: "'s \<Rightarrow> exn + 's"
  mdl_update_optics :: "'m \<Rightarrow> 'p \<Rightarrow> exn + 'm"
  mdl_track :: "'m \<Rightarrow> exn + 'm"
  mdl_get_measurements :: "'m \<Rightarrow> exn + 'o"
  srv_update_measurements :: "'s \<Rightarrow> 'o \<Rightarrow> exn + 's"
  srv_update :: "'s \<Rightarrow> exn + 's"

text \<open>
  Every call the loop makes to the outside is recorded, in order, in a trace. A call is
  recorded when it is made, before its outcome is known.
\<close>

datatype event =
    NotCtrlc bool
  | TimeTime
  | EpicsNow
  | GetSettings
  | UpdateReadbacks
  | UpdateOptics
  | Track
  | GetMeasurements
  | UpdateMeasurements
  | ServerUpdate
  | Print string
  | Sleep real

record ('s, 'm) world =
  server :: 's
  model :: 'm
  trace :: "event list"

definition emit :: "event \<Rightarrow> ('s, 'm) world \<Rightarrow> ('s, 'm) world" where
  "emit ev w = w\<lparr>trace := trace w @ [ev]\<rparr>"

text \<open>
  What the environment answers during one iteration: the value of \<open>not_ctrlc()\<close> at the
  head of the loop, and the two readings of \<open>time.time()\<close>. Times are real numbers.
\<close>

record cycle_in =
  flag :: bool
  t_start :: real
  t_end :: real

datatype ('s, 'm) tick_result =
    Completed "('s, 'm) world"
  | Raised exn "('s, 'm) world"

text \<open>
  The tick: the statements of the loop body from \<open>loop_start_time = time.time()\<close> to
  \<open>server.update()\<close>. There is no \<open>try\<close> around any of them: the first exception ends
  the tick and propagates.
\<close>

definition tick ::
  "('s, 'm, 'p, 'o) collaborators \<Rightarrow> ('s, 'm) world \<Rightarrow> ('s, 'm) tick_result" where
  "tick C w0 =
    (let w1 = emit TimeTime w0;
         w2 = emit EpicsNow w1;
         w3 = emit GetSettings w2
     in case srv_get_settings C (server w3) of
          Inl e \<Rightarrow> Raised e w3
        | Inr new_params \<Rightarrow>
     let w4 = emit UpdateReadbacks w3
     in case srv_update_readbacks C (server w4) of
          Inl e \<Rightarrow> Raised e w4
        | Inr s1 \<Rightarrow>
     let w5 = emit UpdateOptics (w4\<lparr>server := s1\<rparr>)
     in case mdl_update_optics C (model w5) new_params of
          Inl e \<Rightarrow> Raised e w5
        | Inr m1 \<Rightarrow>
     let w6 = emit Track (w5\<lparr>model := m1\<rparr>)
     in case mdl_track C (model w6) of
          Inl e \<Rightarrow> Raised e w6
        | Inr m2 \<Rightarrow>
     let w7 = emit GetMeasurements (w6\<lparr>model := m2\<rparr>)
     in case mdl_get_measurements C (model w7) of
          Inl e \<Rightarrow> Raised e w7
        | Inr new_measurements \<Rightarrow>
     let w8 = emit UpdateMeasurements w7
     in case srv_update_measurements C (server w8) new_measurements of
          Inl e \<Rightarrow> Raised e w8
        | Inr s2 \<Rightarrow>
     let w9 = emit ServerUpdate (w8\<lparr>server := s2\<rparr>)
     in case srv_update C (server w9) of
          Inl e \<Rightarrow> Raised e w9
        | Inr s3 \<Rightarrow> Completed (w9\<lparr>server := s3\<rparr>))"

text \<open>
  The end of the loop body: the second reading of the clock and the choice between the
  warning and the sleep.
\<close>

definition overrun_warning :: string where
  "overrun_warning = ''Warning: Update took longer than refresh rate.''"

definition exit_message :: string where
  "exit_message = ''Exiting. Thank you for using our virtual accelerator!''"

definition pace :: "real \<Rightarrow> cycle_in \<Rightarrow> ('s, 'm) world \<Rightarrow> ('s, 'm) world" where
  "pace update_period i w =
    (let w1 = emit TimeTime w;
         loop_time_taken = t_end i - t_start i;
         sleep_time = update_period - loop_time_taken
     in if sleep_time < 0 then emit (Print overrun_warning) w1
        else emit (Sleep sleep_time) w1)"

text \<open>
  The loop runs against the answers of the environment, one \<open>cycle_in\<close> per iteration.
  It may run forever; on a finite list of answers it is \<open>Running\<close> when the answers
  are used up, \<open>Exited\<close> when \<open>not_ctrlc()\<close> was false (the statement after the loop
  prints the farewell), and \<open>Crashed\<close> when an exception left the loop.
\<close>

datatype outcome = Running | Exited | Crashed exn

fun main_loop ::
  "('s, 'm, 'p, 'o) collaborators \<Rightarrow> real \<Rightarrow> cycle_in list \<Rightarrow> ('s, 'm) world
     \<Rightarrow> outcome \<times> ('s, 'm) world" where
  "main_loop C update_period [] w = (Running, w)"
| "main_loop C update_period (i # rest) w =
    (let w1 = emit (NotCtrlc (flag i)) w
     in if \<not> flag i then (Exited, emit (Print exit_message) w1)
        else case tick C w1 of
               Raised e w2 \<Rightarrow> (Crashed e, w2)
             | Completed w2 \<Rightarrow> main_loop C update_period rest (pace update_period i w2))"

text \<open>Whether the first occurrence of \<open>a\<close> in a trace comes before the first of \<open>b\<close>.\<close>

fun precedes :: "event \<Rightarrow> event \<Rightarrow> event list \<Rightarrow> bool" where
  "precedes a b [] = False"
| "precedes a b (x # xs) = (if x = b then False else if x = a then b \<in> set xs else precedes a b xs)"

text \<open>
  Stub collaborators for concrete runs: the server state counts the readback refreshes
  and holds the last measurement, the model doubles its input.
\<close>

definition stub :: "(nat \<times> nat, nat, nat, nat) collaborators" where
  "stub = \<lparr>
     srv_get_settings = (\<lambda>s. Inr 7),
     srv_update_readbacks = (\<lambda>(rb, ms). Inr (Suc rb, ms)),
     mdl_update_optics = (\<lambda>m p. Inr p),
     mdl_track = (\<lambda>m. Inr (2 * m)),
     mdl_get_measurements = (\<lambda>m. Inr m),
     srv_update_measurements = (\<lambda>(rb, ms) v. Inr (rb, v)),
     srv_update = (\<lambda>s. Inr s) \<rparr>"

definition stub_failing_track :: "(nat \<times> nat, nat, nat, nat) collaborators" where
  "stub_failing_track = stub\<lparr>mdl_track := (\<lambda>m. Inl (Exception ''unknown element''))\<rparr>"

definition world0 :: "(nat \<times> nat, nat) world" where
  "world0 = \<lparr>server = (0, 0), model = 0, trace = []\<rparr>"

text \<open>The world a tick ends in, whether it completed or raised.\<close>

fun final_world :: "('s, 'm) tick_result \<Rightarrow> ('s, 'm) world" where
  "final_world (Completed w) = w"
| "final_world (Raised e w) = w"

text \<open>The calls of a tick that runs to its end, in the order of the statements of the loop body.\<close>

definition tick_calls :: "event list" where
  "tick_calls = [TimeTime, EpicsNow, GetSettings, UpdateReadbacks, UpdateOptics,
                 Track, GetMeasurements, UpdateMeasurements, ServerUpdate]"

text \<open>
  The event that closes an iteration, in terms of the time the tick took: the warning
  when it took longer than the period, the sleep for the remainder otherwise.
\<close>

definition sleep_decision :: "real \<Rightarrow> cycle_in \<Rightarrow> event" where
  "sleep_decision update_period i =
    (let elapsed = t_end i - t_start i
     in if update_period < elapsed then Print overrun_warning
        else Sleep (update_period - elapsed))"

text \<open>Two iterations of the environment: one within a period of a second, one overrunning it.\<close>

definition cycle_ok :: cycle_in where
  "cycle_ok = \<lparr>flag = True, t_start = 0, t_end = 1 / 4\<rparr>"

definition cycle_late :: cycle_in where
  "cycle_late = \<lparr>flag = True, t_start = 1, t_end = 3\<rparr>"


section \<open>Strings\<close>

text \<open>
  Python's \<open>s.startswith(p)\<close>, \<open>sub in s\<close> and \<open>s.replace(old, new, 1)\<close> on strings,
  scanning from the left.
\<close>

fun startswith :: "string \<Rightarrow> string \<Rightarrow> bool" where
  "startswith s [] = True"
| "startswith [] (p # ps) = False"
| "startswith (c # s) (p # ps) = (c = p \<and> startswith s ps)"

fun str_contains :: "string \<Rightarrow> string \<Rightarrow> bool" where
  "str_contains sub [] = (sub = [])"
| "str_contains sub (c # s) = (startswith (c # s) sub \<or> str_contains sub s)"

fun replace_first :: "string \<Rightarrow> string \<Rightarrow> string \<Rightarrow> string" where
  "replace_first old new [] = (if old = [] then new else [])"
| "replace_first old new (c # s) =
     (if startswith (c # s) old then new @ drop (length old) (c # s)
      else c # replace_first old new s)"

section \<open>Devices\<close>

text \<open>
  The device classes of \<open>virtual_devices_SNS\<close> build on the class \<open>Device\<close> and on the
  transforms and the noise of module \<open>ca_server\<close>, whose text is not part of the
  repository's sources under study. What the device classes use of it is modelled from
  the specification, each definition marked so.
\<close>

text \<open>
  Modelled from the spec: the noise policy \<open>AbsNoise(noise=a)\<close> of \<open>ca_server\<close>, known
  here by its amplitude only.
\<close>

datatype noise_policy = AbsNoise real

text \<open>
  Modelled from the spec: the transforms of \<open>ca_server\<close>, of which the device classes
  use the identity (no transform given) and \<open>LinearTInv(scaler=s)\<close>, the linear-inverse
  transform with \<open>raw = scaler * real\<close>.
\<close>

datatype transform = IdentityT | LinearTInv real

text \<open>Modelled from the spec: the method \<open>raw\<close> of a transform, from real to raw units.\<close>

fun transform_raw :: "transform \<Rightarrow> real \<Rightarrow> real" where
  "transform_raw IdentityT x = x"
| "transform_raw (LinearTInv scaler) x = scaler * x"

text \<open>
  Modelled from the spec: the Parameter of a setting, with its name, raw value and
  transform.
\<close>

record parameter =
  par_name :: string
  par_raw :: real
  par_transform :: transform

text \<open>
  Modelled from the spec: a readback, with the setting Parameter it is linked to, its
  noise, its transform and the name it is published under when that differs from its own.
\<close>

record readback =
  rb_link :: parameter
  rb_noise :: "noise_policy option"
  rb_transform :: transform
  rb_name_override :: "string option"

text \<open>
  Modelled from the spec: a measurement, with its noise and the value last put into it,
  none before the first update.
\<close>

record measurement =
  ms_noise :: "noise_policy option"
  ms_value :: "real option"

text \<open>
  Modelled from the spec: the class \<open>Device\<close> of \<open>ca_server\<close>, with its name, the name of
  its model element and its three dictionaries from PV name to settings, readbacks and
  measurements.
\<close>

record device =
  dev_name :: string
  dev_model_name :: string
  settings :: "string \<rightharpoonup> parameter"
  readbacks :: "string \<rightharpoonup> readback"
  measurements :: "string \<rightharpoonup> measurement"

text \<open>
  Modelled from the spec: \<open>Device.__init__(name, model_name)\<close>, a device with nothing
  registered.
\<close>

definition Device_init :: "string \<Rightarrow> string \<Rightarrow> device" where
  "Device_init name model_name =
     \<lparr>dev_name = name, dev_model_name = model_name,
      settings = Map.empty, readbacks = Map.empty, measurements = Map.empty\<rparr>"

text \<open>
  Modelled from the spec: \<open>Device.register_setting(pv_name, default, transform)\<close>, which
  creates a writable Parameter, seeds its raw value with the transform's \<open>raw\<close> of the
  default, and returns the Parameter.
\<close>

definition register_setting ::
  "device \<Rightarrow> string \<Rightarrow> real \<Rightarrow> transform \<Rightarrow> parameter \<times> device" where
  "register_setting self pv_name dflt t =
     (let param = \<lparr>par_name = pv_name, par_raw = transform_raw t dflt, par_transform = t\<rparr>
      in (param, self\<lparr>settings := (settings self)(pv_name \<mapsto> param)\<rparr>))"

text \<open>
  Modelled from the spec: \<open>Device.register_readback(pv_name, linked_setting, noise,
  transform, name_override)\<close>, which creates a readback linked to the setting Parameter
  it is given, published under \<open>name_override\<close> if one is given.
\<close>

definition register_readback ::
  "device \<Rightarrow> string \<Rightarrow> parameter \<Rightarrow> noise_policy option \<Rightarrow> transform \<Rightarrow> string option
     \<Rightarrow> readback \<times> device" where
  "register_readback self pv_name linked_setting noise t name_override =
     (let rb = \<lparr>rb_link = linked_setting, rb_noise = noise, rb_transform = t,
                rb_name_override = name_override\<rparr>
      in (rb, self\<lparr>readbacks := (readbacks self)(pv_name \<mapsto> rb)\<rparr>))"

text \<open>
  Modelled from the spec: \<open>Device.register_measurement(pv_name, noise)\<close>, which creates a
  measurement that holds no value yet.
\<close>

definition register_measurement ::
  "device \<Rightarrow> string \<Rightarrow> noise_policy option \<Rightarrow> measurement \<times> device" where
  "register_measurement self pv_name noise =
     (let m = \<lparr>ms_noise = noise, ms_value = None\<rparr>
      in (m, self\<lparr>measurements := (measurements self)(pv_name \<mapsto> m)\<rparr>))"

text \<open>
  Modelled from the spec: \<open>Device.update_measurement(reason, value)\<close>, which puts a value
  into the measurement registered under \<open>reason\<close>; the lookup in the dictionary of
  measurements raises \<open>KeyError\<close> for a name that was never registered.
\<close>

definition update_measurement :: "device \<Rightarrow> string \<Rightarrow> real \<Rightarrow> exn + device" where
  "update_measurement self reason v =
     (case measurements self reason of
        None \<Rightarrow> Inl (KeyError reason)
      | Some m \<Rightarrow> Inr (self\<lparr>measurements := (measurements self)(reason \<mapsto> m\<lparr>ms_value := Some v\<rparr>)\<rparr>))"

text \<open>The value a measurement PV of a device holds.\<close>

definition published :: "device \<Rightarrow> string \<Rightarrow> real option" where
  "published self pv_name =
     (case measurements self pv_name of None \<Rightarrow> None | Some m \<Rightarrow> ms_value m)"

text \<open>A \<open>for\<close> loop over a list whose body may raise: the first exception ends the loop.\<close>

fun for_each :: "('a \<Rightarrow> 's \<Rightarrow> exn + 's) \<Rightarrow> 'a list \<Rightarrow> 's \<Rightarrow> exn + 's" where
  "for_each body [] s = Inr s"
| "for_each body (x # xs) s =
     (case body x s of Inl e \<Rightarrow> Inl e | Inr s' \<Rightarrow> for_each body xs s')"

text \<open>
  The dictionaries passed between model and devices, in the order of their items:
  element name to parameter key to value.
\<close>

type_synonym param_dict = "(string \<times> real) list"
type_synonym model_dict = "(string \<times> param_dict) list"

subsection \<open>\<open>SNS_Dummy_BCM\<close>\<close>

text \<open>
  \<^verbatim>\<open>
    def update_measurements(self, new_params: Dict[str, Dict[str, Any]] = None):
        for model_name, param_dict in new_params.items():
            if model_name == self.model_name:
                for param_key, model_value in param_dict.items():
                    if param_key == SNS_Dummy_BCM.beta_key:
                        reason = SNS_Dummy_BCM.freq_pv
                        beta = model_value
                        freq = beta * SNS_Dummy_BCM.c_light / SNS_Dummy_BCM.ring_length
                        self.update_measurement(reason, freq)
  \<close>
  Values are real numbers. Without an argument \<open>new_params\<close> is \<open>None\<close>, which has no
  \<open>items\<close>.
\<close>

definition freq_pv :: string where "freq_pv = ''FFT_peak2''"
definition beta_key :: string where "beta_key = ''beta''"
definition c_light :: real where "c_light = 299792458"
definition ring_length :: real where "ring_length = 247967 / 1000"

definition SNS_Dummy_BCM_init :: "string \<Rightarrow> string option \<Rightarrow> device" where
  "SNS_Dummy_BCM_init name model_name =
     (let self_model_name = (case model_name of None \<Rightarrow> name | Some m \<Rightarrow> m);
          self = Device_init name self_model_name
      in snd (register_measurement self freq_pv None))"

text \<open>The inner loop of \<open>update_measurements\<close>, over the items of one parameter dictionary.\<close>

definition bcm_inner :: "param_dict \<Rightarrow> device \<Rightarrow> exn + device" where
  "bcm_inner param_dict self =
     for_each (\<lambda>(param_key, model_value) self.
                if param_key = beta_key then
                  (let reason = freq_pv;
                       beta = model_value;
                       freq = beta * c_light / ring_length
                   in update_measurement self reason freq)
                else Inr self) param_dict self"

definition SNS_Dummy_BCM_update_measurements :: "device \<Rightarrow> model_dict option \<Rightarrow> exn + device" where
  "SNS_Dummy_BCM_update_measurements self new_params =
     (case new_params of
        None \<Rightarrow> Inl (AttributeError ''items'')
      | Some d \<Rightarrow>
          for_each (\<lambda>(model_name, param_dict) self.
            if model_name = dev_model_name self then bcm_inner param_dict self
            else Inr self) d self)"

text \<open>The two dummy devices as \<open>main\<close> constructs them.\<close>

definition bcm_d09 :: device where
  "bcm_d09 = SNS_Dummy_BCM_init ''Ring_Diag:BCM_D09'' (Some ''HEBT_Diag:BPM11'')"

subsection \<open>\<open>SNS_Dummy_ICS\<close>\<close>

definition beam_on_pv :: string where "beam_on_pv = ''Gate_BeamOn:RR''"
definition event_pv :: string where "event_pv = ''Util:event46''"
definition trigger_pv :: string where "trigger_pv = ''Gate_BeamOn:SSTrigger''"

definition SNS_Dummy_ICS_init :: "string \<Rightarrow> string option \<Rightarrow> device" where
  "SNS_Dummy_ICS_init name model_name =
     (let self_model_name = (case model_name of None \<Rightarrow> name | Some m \<Rightarrow> m);
          self = Device_init name self_model_name;
          rr_noise = AbsNoise (1 / 10 ^ 2);
          event_noise = AbsNoise (1 / 10 ^ 9);
          self = snd (register_measurement self beam_on_pv (Some rr_noise));
          self = snd (register_measurement self event_pv (Some event_noise));
          self = snd (register_setting self trigger_pv 0 IdentityT)
      in self)"

definition SNS_Dummy_ICS_update_measurements :: "device \<Rightarrow> 'a \<Rightarrow> exn + device" where
  "SNS_Dummy_ICS_update_measurements self new_measurements =
     (case update_measurement self beam_on_pv 1 of
        Inl e \<Rightarrow> Inl e
      | Inr self \<Rightarrow> update_measurement self event_pv 0)"

definition SNS_Dummy_ICS_get_settings :: "device \<Rightarrow> model_dict" where
  "SNS_Dummy_ICS_get_settings self = []"

definition ics_tim :: device where
  "ics_tim = SNS_Dummy_ICS_init ''ICS_Tim'' None"

subsection \<open>\<open>SNS_Quadrupole\<close> and \<open>SNS_Corrector\<close>\<close>

text \<open>Python's \<open>d[key]\<close> on a dictionary and \<open>xs[n]\<close> on a sequence, for \<open>n\<close> from 0.\<close>

definition dict_get :: "param_dict \<Rightarrow> string \<Rightarrow> exn + real" where
  "dict_get d key = (case map_of d key of None \<Rightarrow> Inl (KeyError key) | Some v \<Rightarrow> Inr v)"

definition list_get :: "real list \<Rightarrow> nat \<Rightarrow> exn + real" where
  "list_get xs n = (if n < length xs then Inr (xs ! n) else Inl IndexError)"

text \<open>
  The class attributes \<open>field_key\<close>, \<open>field_set_pv\<close>, \<open>field_readback_pv\<close> of
  \<open>Quadrupole\<close> and, with the two limit PVs and \<open>field_limits\<close>, of \<open>Corrector\<close> are
  declared in \<open>virtaccl.virtual_devices\<close>, whose text is not part of the sources under
  study: they are parameters, and so are the initializers of the two superclasses.
\<close>

record quadrupole_consts =
  q_field_key :: string
  q_field_set_pv :: string
  q_field_readback_pv :: string

record corrector_consts =
  c_field_key :: string
  c_field_set_pv :: string
  c_field_readback_pv :: string
  c_field_high_limit_pv :: string
  c_field_low_limit_pv :: string
  c_field_limits :: "real list"

text \<open>
  \<^verbatim>\<open>
    class SNS_Quadrupole(Quadrupole):
        def __init__(self, name, model_name=None, initial_dict=None):
            if model_name is None: self.model_name = name
            else: self.model_name = model_name
            super().__init__(name, self.model_name, initial_dict)
            readback_name = name.replace('PS_', '', 1)
            if initial_dict is not None: initial_field = initial_dict[Quadrupole.field_key]
            else: initial_field = 0.0
            field_noise = AbsNoise(noise=1e-6)
            pol = 1
            if 'PS_QH' in name: pol = -1
            pol_transform = LinearTInv(scaler=pol)
            initial_field = pol_transform.raw(initial_field)
            field_param = self.register_setting(Quadrupole.field_set_pv,
                              default=initial_field, transform=pol_transform)
            self.register_readback(Quadrupole.field_readback_pv, field_param,
                              noise=field_noise, name_override=readback_name)
  \<close>
\<close>

definition SNS_Quadrupole_init ::
  "quadrupole_consts \<Rightarrow> (string \<Rightarrow> string \<Rightarrow> param_dict option \<Rightarrow> exn + device)
     \<Rightarrow> string \<Rightarrow> string option \<Rightarrow> param_dict option \<Rightarrow> exn + device" where
  "SNS_Quadrupole_init Q Quadrupole_init name model_name initial_dict =
    (let self_model_name = (case model_name of None \<Rightarrow> name | Some m \<Rightarrow> m)
     in case Quadrupole_init name self_model_name initial_dict of
          Inl e \<Rightarrow> Inl e
        | Inr self \<Rightarrow>
     let readback_name = replace_first ''PS_'' '''' name
     in case (case initial_dict of
                Some d \<Rightarrow> dict_get d (q_field_key Q)
              | None \<Rightarrow> Inr 0) of
          Inl e \<Rightarrow> Inl e
        | Inr initial_field \<Rightarrow>
     let field_noise = AbsNoise (1 / 10 ^ 6);
         pol = (if str_contains ''PS_QH'' name then - 1 else 1);
         pol_transform = LinearTInv pol;
         initial_field = transform_raw pol_transform initial_field;
         (field_param, self) =
            register_setting self (q_field_set_pv Q) initial_field pol_transform;
         (rb, self) =
            register_readback self (q_field_readback_pv Q) field_param (Some field_noise)
              IdentityT (Some readback_name)
     in Inr self)"

text \<open>
  \<open>SNS_Corrector.__init__\<close> passes \<open>model_name\<close> as it was given to the superclass,
  tests the name for \<open>'SCL'\<close>, and after the readback registers the two limit settings
  from \<open>Corrector.field_limits[1]\<close> and \<open>Corrector.field_limits[0]\<close>.
\<close>

definition SNS_Corrector_init ::
  "corrector_consts \<Rightarrow> (string \<Rightarrow> string option \<Rightarrow> param_dict option \<Rightarrow> exn + device)
     \<Rightarrow> string \<Rightarrow> string option \<Rightarrow> param_dict option \<Rightarrow> exn + device" where
  "SNS_Corrector_init K Corrector_init name model_name initial_dict =
    (case Corrector_init name model_name initial_dict of
          Inl e \<Rightarrow> Inl e
        | Inr self \<Rightarrow>
     let readback_name = replace_first ''PS_'' '''' name
     in case (case initial_dict of
                Some d \<Rightarrow> dict_get d (c_field_key K)
              | None \<Rightarrow> Inr 0) of
          Inl e \<Rightarrow> Inl e
        | Inr initial_field \<Rightarrow>
     let field_noise = AbsNoise (1 / 10 ^ 6);
         pol = (if str_contains ''SCL'' name then - 1 else 1);
         pol_transform = LinearTInv pol;
         initial_field = transform_raw pol_transform initial_field;
         (field_param, self) =
            register_setting self (c_field_set_pv K) initial_field pol_transform;
         (rb, self) =
            register_readback self (c_field_readback_pv K) field_param (Some field_noise)
              IdentityT (Some readback_name)
     in case list_get (c_field_limits K) 1 of
          Inl e \<Rightarrow> Inl e
        | Inr high \<Rightarrow>
     let (p, self) = register_setting self (c_field_high_limit_pv K) high IdentityT
     in case list_get (c_field_limits K) 0 of
          Inl e \<Rightarrow> Inl e
        | Inr low \<Rightarrow>
     let (p, self) = register_setting self (c_field_low_limit_pv K) low IdentityT
     in Inr self)"

text \<open>
  For concrete runs: superclass initializers that only create the device, and the
  attribute values of a quadrupole and a corrector.
\<close>

definition plain_init :: "string \<Rightarrow> string \<Rightarrow> param_dict option \<Rightarrow> exn + device" where
  "plain_init name model_name initial_dict = Inr (Device_init name model_name)"

definition plain_init_opt :: "string \<Rightarrow> string option \<Rightarrow> param_dict option \<Rightarrow> exn + device" where
  "plain_init_opt name model_name initial_dict =
     Inr (Device_init name (case model_name of None \<Rightarrow> name | Some m \<Rightarrow> m))"

definition quad_consts :: quadrupole_consts where
  "quad_consts = \<lparr>q_field_key = ''dB/dr'', q_field_set_pv = ''B_Set'', q_field_readback_pv = ''B''\<rparr>"

definition corr_consts :: corrector_consts where
  "corr_consts = \<lparr>c_field_key = ''B'', c_field_set_pv = ''B_Set'', c_field_readback_pv = ''B'',
     c_field_high_limit_pv = ''B_Set.HOPR'', c_field_low_limit_pv = ''B_Set.LOPR'',
     c_field_limits = [- 1 / 10, 1 / 10]\<rparr>"

text \<open>
  The doublet and the set of quadrupoles on one power supply. Their class attributes
  (\<open>Quadrupole_Doublet.field_key\<close>, \<open>field_set_pv\<close>, \<open>field_readback_pv\<close>, and the two
  PVs of \<open>Quadrupole_Set\<close>, which reads \<open>Quadrupole.field_key\<close>) and the initializers of
  their superclasses are parameters as well.
\<close>

record doublet_consts =
  d_field_key :: string
  d_field_set_pv :: string
  d_field_readback_pv :: string

record quadrupole_set_consts =
  s_field_set_pv :: string
  s_field_readback_pv :: string

text \<open>
  \<open>SNS_Quadrupole_Doublet.__init__(name, h_model_name, v_model_name, initial_dict)\<close> and
  \<open>SNS_Quadrupole_Set.__init__(name, model_names, initial_dict)\<close> pass their arguments
  to the superclass and go on as the quadrupole does, with the test for \<open>'SCL'\<close> in the
  name. The attributes they set on the object before that (\<open>h_name\<close>, \<open>v_name\<close>,
  \<open>model_names\<close>) are no part of the device as modelled here.
\<close>

definition SNS_Quadrupole_Doublet_init ::
  "doublet_consts \<Rightarrow> (string \<Rightarrow> string \<Rightarrow> string \<Rightarrow> param_dict option \<Rightarrow> exn + device)
     \<Rightarrow> string \<Rightarrow> string \<Rightarrow> string \<Rightarrow> param_dict option \<Rightarrow> exn + device" where
  "SNS_Quadrupole_Doublet_init D Quadrupole_Doublet_init name h_model_name v_model_name
       initial_dict =
    (case Quadrupole_Doublet_init name h_model_name v_model_name initial_dict of
          Inl e \<Rightarrow> Inl e
        | Inr self \<Rightarrow>
     let readback_name = replace_first ''PS_'' '''' name
     in case (case initial_dict of
                Some d \<Rightarrow> dict_get d (d_field_key D)
              | None \<Rightarrow> Inr 0) of
          Inl e \<Rightarrow> Inl e
        | Inr initial_field \<Rightarrow>
     let field_noise = AbsNoise (1 / 10 ^ 6);
         pol = (if str_contains ''SCL'' name then - 1 else 1);
         pol_transform = LinearTInv pol;
         initial_field = transform_raw pol_transform initial_field;
         (field_param, self) =
            register_setting self (d_field_set_pv D) initial_field pol_transform;
         (rb, self) =
            register_readback self (d_field_readback_pv D) field_param (Some field_noise)
              IdentityT (Some readback_name)
     in Inr self)"

definition SNS_Quadrupole_Set_init ::
  "quadrupole_consts \<Rightarrow> quadrupole_set_consts
     \<Rightarrow> (string \<Rightarrow> string list \<Rightarrow> param_dict option \<Rightarrow> exn + device)
     \<Rightarrow> string \<Rightarrow> string list \<Rightarrow> param_dict option \<Rightarrow> exn + device" where
  "SNS_Quadrupole_Set_init Q S Quadrupole_Set_init name model_names initial_dict =
    (case Quadrupole_Set_init name model_names initial_dict of
          Inl e \<Rightarrow> Inl e
        | Inr self \<Rightarrow>
     let readback_name = replace_first ''PS_'' '''' name
     in case (case initial_dict of
                Some d \<Rightarrow> dict_get d (q_field_key Q)
              | None \<Rightarrow> Inr 0) of
          Inl e \<Rightarrow> Inl e
        | Inr initial_field \<Rightarrow>
     let field_noise = AbsNoise (1 / 10 ^ 6);
         pol = (if str_contains ''SCL'' name then - 1 else 1);
         pol_transform = LinearTInv pol;
         initial_field = transform_raw pol_transform initial_field;
         (field_param, self) =
            register_setting self (s_field_set_pv S) initial_field pol_transform;
         (rb, self) =
            register_readback self (s_field_readback_pv S) field_param (Some field_noise)
              IdentityT (Some readback_name)
     in Inr self)"

text \<open>For concrete runs of the doublet and the set.\<close>

definition plain_init_doublet ::
  "string \<Rightarrow> string \<Rightarrow> string \<Rightarrow> param_dict option \<Rightarrow> exn + device" where
  "plain_init_doublet name h_model_name v_model_name initial_dict =
     Inr (Device_init name h_model_name)"

definition plain_init_set :: "string \<Rightarrow> string list \<Rightarrow> param_dict option \<Rightarrow> exn + device" where
  "plain_init_set name model_names initial_dict = Inr (Device_init name (concat model_names))"

definition doublet_demo_consts :: doublet_consts where
  "doublet_demo_consts =
     \<lparr>d_field_key = ''dB/dr'', d_field_set_pv = ''B_Set'', d_field_readback_pv = ''B''\<rparr>"

definition set_demo_consts :: quadrupole_set_consts where
  "set_demo_consts = \<lparr>s_field_set_pv = ''B_Set'', s_field_readback_pv = ''B''\<rparr>"

section \<open>The child nodes of \<open>btf_child_nodes\<close>\<close>

text \<open>
  The values a \<open>paramsDict\<close> holds: a bunch, known here by the number of particles
  \<open>getSizeGlobal()\<close> returns, or a number. A number has no \<open>getSizeGlobal\<close>, and a
  bunch is no operand of \<open>/\<close> or \<open>*\<close>; dividing by zero raises.
\<close>

datatype pyval = BunchV nat | NumV real

definition getSizeGlobal :: "pyval \<Rightarrow> exn + nat" where
  "getSizeGlobal v = (case v of BunchV n \<Rightarrow> Inr n | NumV x \<Rightarrow> Inl (AttributeError ''getSizeGlobal''))"

definition subscript :: "(string \<rightharpoonup> pyval) \<Rightarrow> string \<Rightarrow> exn + pyval" where
  "subscript d key = (case d key of None \<Rightarrow> Inl (KeyError key) | Some v \<Rightarrow> Inr v)"

definition py_truediv :: "real \<Rightarrow> pyval \<Rightarrow> exn + real" where
  "py_truediv a v =
     (case v of
        BunchV n \<Rightarrow> Inl (TypeError ''/'')
      | NumV b \<Rightarrow> if b = 0 then Inl ZeroDivisionError else Inr (a / b))"

definition py_mul :: "real \<Rightarrow> pyval \<Rightarrow> exn + real" where
  "py_mul a v = (case v of BunchV n \<Rightarrow> Inl (TypeError ''*'') | NumV b \<Rightarrow> Inr (a * b))"

text \<open>
  \<^verbatim>\<open>
    def trackActions(self, actionsContainer, paramsDict):
        if "bunch" not in paramsDict:
            return
        bunch = paramsDict["bunch"]
        part_num = bunch.getSizeGlobal()
        if part_num > 0:
            initial_beam_current = paramsDict["beam_current"]
            initial_number = paramsDict['initial_particle_number']
            current = part_num / initial_number * initial_beam_current
            self.parameters['current'] = current
        else:
            self.parameters['current'] = 0.0
  \<close>
  The method of \<open>BTF_FCclass\<close> and, below it, that of \<open>BTF_BCMclass\<close>, each from its
  own text. The state of the node is its dictionary \<open>self.parameters\<close>; the method
  returns it as it leaves it, or the exception it raises.
\<close>

definition BTF_FCclass_trackActions ::
  "(string \<rightharpoonup> real) \<Rightarrow> (string \<rightharpoonup> pyval) \<Rightarrow> exn + (string \<rightharpoonup> real)" where
  "BTF_FCclass_trackActions parameters paramsDict =
    (if paramsDict ''bunch'' = None then Inr parameters
     else case subscript paramsDict ''bunch'' of
            Inl e \<Rightarrow> Inl e
          | Inr bunch \<Rightarrow>
       case getSizeGlobal bunch of
            Inl e \<Rightarrow> Inl e
          | Inr part_num \<Rightarrow>
       if part_num > 0 then
         case subscript paramsDict ''beam_current'' of
            Inl e \<Rightarrow> Inl e
          | Inr initial_beam_current \<Rightarrow>
         case subscript paramsDict ''initial_particle_number'' of
            Inl e \<Rightarrow> Inl e
          | Inr initial_number \<Rightarrow>
         case py_truediv (real part_num) initial_number of
            Inl e \<Rightarrow> Inl e
          | Inr q \<Rightarrow>
         case py_mul q initial_beam_current of
            Inl e \<Rightarrow> Inl e
          | Inr current \<Rightarrow> Inr (parameters(''current'' \<mapsto> current))
       else Inr (parameters(''current'' \<mapsto> 0)))"

definition BTF_BCMclass_trackActions ::
  "(string \<rightharpoonup> real) \<Rightarrow> (string \<rightharpoonup> pyval) \<Rightarrow> exn + (string \<rightharpoonup> real)" where
  "BTF_BCMclass_trackActions parameters paramsDict =
    (if paramsDict ''bunch'' = None then Inr parameters
     else case subscript paramsDict ''bunch'' of
            Inl e \<Rightarrow> Inl e
          | Inr bunch \<Rightarrow>
       case getSizeGlobal bunch of
            Inl e \<Rightarrow> Inl e
          | Inr part_num \<Rightarrow>
       if part_num > 0 then
         case subscript paramsDict ''beam_current'' of
            Inl e \<Rightarrow> Inl e
          | Inr initial_beam_current \<Rightarrow>
         case subscript paramsDict ''initial_particle_number'' of
            Inl e \<Rightarrow> Inl e
          | Inr initial_number \<Rightarrow>
         case py_truediv (real part_num) initial_number of
            Inl e \<Rightarrow> Inl e
          | Inr q \<Rightarrow>
         case py_mul q initial_beam_current of
            Inl e \<Rightarrow> Inl e
          | Inr current \<Rightarrow> Inr (parameters(''current'' \<mapsto> current))
       else Inr (parameters(''current'' \<mapsto> 0)))"

section \<open>Quadrupole power supplies at startup\<close>

text \<open>
  The part of \<open>main\<close> that groups the quadrupoles by power supply and constructs the
  power supplies, shunts and quadrupoles:
  \<^verbatim>\<open>
    quad_ps_names = devices_dict["Quadrupole_Power_Supply"]
    ps_quads = {}
    for name in quad_ps_names:
        ps_quads[name] = {"quads": {}, "min_field": math.inf}
    quads = devices_dict["Quadrupole"]
    for name, device_dict in quads.items():
        ele_name = device_dict["PyORBIT_Name"]
        polarity = device_dict["Polarity"]
        if ele_name in element_list:
            initial_field_str = abs(model.get_element_parameters(ele_name)['dB/dr'])
            if "Power_Supply" in device_dict and device_dict["Power_Supply"] in quad_ps_names:
                ps_name = device_dict["Power_Supply"]
                if "Power_Shunt" in device_dict and device_dict["Power_Shunt"] in devices_dict[
                    "Quadrupole_Power_Shunt"]:
                    shunt_name = device_dict["Power_Shunt"]
                    ps_quads[ps_name]["quads"] |= {name: {'or_name': ele_name,
                        'shunt': shunt_name, 'dB/dr': initial_field_str, 'polarity': polarity}}
                    if ps_quads[ps_name]["min_field"] > initial_field_str:
                        ps_quads[ps_name]["min_field"] = initial_field_str
                else:
                    ps_quads[ps_name]["quads"] |= {name: {'or_name': ele_name,
                        'shunt': 'none', 'dB/dr': initial_field_str, 'polarity': polarity}}
                    if ps_quads[ps_name]["min_field"] > initial_field_str:
                        ps_quads[ps_name]["min_field"] = initial_field_str
    for ps_name, ps_dict in ps_quads.items():
        if ps_dict["quads"]:
            ps_field = ps_dict["min_field"]
            ps_device = Quadrupole_Power_Supply(ps_name, ps_field)
            server.add_device(ps_device)
            for quad_name, quad_model in ps_dict["quads"].items():
                if quad_model['shunt'] == 'none':
                    quad_device = Quadrupole(quad_name, quad_model['or_name'],
                        power_supply=ps_device, polarity=quad_model['polarity'])
                else:
                    shunt_name = quad_model['shunt']
                    field = quad_model['dB/dr']
                    shunt_field = field - ps_field
                    shunt_device = Quadrupole_Power_Shunt(shunt_name, shunt_field)
                    server.add_device(shunt_device)
                    quad_device = Quadrupole(quad_name, quad_model['or_name'],
                        power_supply=ps_device, power_shunt=shunt_device,
                        polarity=quad_model['polarity'])
                server.add_device(quad_device)
  \<close>
  The field strengths the model gives are real numbers. A field is such a number or
  \<open>math.inf\<close>, which is greater than every number; a number minus \<open>math.inf\<close> is
  \<open>-math.inf\<close>.
\<close>

datatype pyfloat = Fin real | PInf | NInf

fun pf_gt :: "pyfloat \<Rightarrow> real \<Rightarrow> bool" where
  "pf_gt (Fin a) x = (a > x)"
| "pf_gt PInf x = True"
| "pf_gt NInf x = False"

fun pf_rsub :: "real \<Rightarrow> pyfloat \<Rightarrow> pyfloat" where
  "pf_rsub x (Fin a) = Fin (x - a)"
| "pf_rsub x PInf = NInf"
| "pf_rsub x NInf = PInf"

text \<open>
  An entry of \<open>devices_dict["Quadrupole"]\<close>: each of the four keys the code reads is there
  or not, and reading one that is not there raises \<open>KeyError\<close>.
\<close>

record quad_config =
  PyORBIT_Name :: "string option"
  Polarity :: "int option"
  Power_Supply :: "string option"
  Power_Shunt :: "string option"

text \<open>
  The three entries of \<open>devices_dict\<close> this part of \<open>main\<close> reads, each there or not: the
  names of the power supplies, the configured quadrupoles by name, and the names of the
  shunts.
\<close>

record devices_dict =
  dd_Quadrupole_Power_Supply :: "string list option"
  dd_Quadrupole :: "(string \<times> quad_config) list option"
  dd_Quadrupole_Power_Shunt :: "string list option"

text \<open>
  What the model answers: its list of elements, and for an element the value of
  \<open>model.get_element_parameters(ele_name)['dB/dr']\<close> or the exception the call or the
  subscript raises. The class of the model is not part of the sources under study.
\<close>

record model_env =
  element_list :: "string list"
  dB_dr :: "string \<Rightarrow> exn + real"

text \<open>
  The dictionaries the code builds: one \<open>quad_model\<close> per attached quadrupole, and per
  power supply its quadrupoles by name with the smallest field seen so far. A dictionary
  is the list of its items in insertion order; \<open>AList.update\<close> is the assignment to a
  key, which keeps the place of a key that is already there.
\<close>

record quad_model =
  or_name :: string
  shunt :: string
  qm_dB_dr :: real
  qm_polarity :: int

record ps_dict =
  quads :: "(string \<times> quad_model) list"
  min_field :: pyfloat

text \<open>
  The three statements both branches of the shunt test end with: the quadrupole is put
  into the dictionary of its power supply, and the smallest field is lowered to its field
  when that is smaller. \<open>ps_quads[ps_name]\<close> raises for a name that is no key.
\<close>

definition attach_quad ::
  "string \<Rightarrow> string \<Rightarrow> quad_model \<Rightarrow> real \<Rightarrow> (string \<times> ps_dict) list
     \<Rightarrow> exn + (string \<times> ps_dict) list" where
  "attach_quad ps_name name qm initial_field_str ps_quads =
     (case map_of ps_quads ps_name of
        None \<Rightarrow> Inl (KeyError ps_name)
      | Some d \<Rightarrow>
          let d1 = d\<lparr>quads := AList.update name qm (quads d)\<rparr>;
              d2 = (if pf_gt (min_field d1) initial_field_str
                    then d1\<lparr>min_field := Fin initial_field_str\<rparr> else d1)
          in Inr (AList.update ps_name d2 ps_quads))"

text \<open>
  The body of the loop over the configured quadrupoles. \<open>devices_dict["Quadrupole_Power_Shunt"]\<close>
  is read only when the quadrupole has a \<open>"Power_Shunt"\<close>, as the \<open>and\<close> of the source
  does.
\<close>

definition add_quad ::
  "model_env \<Rightarrow> devices_dict \<Rightarrow> string list \<Rightarrow> string \<times> quad_config
     \<Rightarrow> (string \<times> ps_dict) list \<Rightarrow> exn + (string \<times> ps_dict) list" where
  "add_quad E devices_dict quad_ps_names = (\<lambda>(name, device_dict) ps_quads.
     case PyORBIT_Name device_dict of
       None \<Rightarrow> Inl (KeyError ''PyORBIT_Name'')
     | Some ele_name \<Rightarrow>
     case Polarity device_dict of
       None \<Rightarrow> Inl (KeyError ''Polarity'')
     | Some polarity \<Rightarrow>
     if ele_name \<in> set (element_list E) then
       case dB_dr E ele_name of
         Inl e \<Rightarrow> Inl e
       | Inr v \<Rightarrow>
       let initial_field_str = \<bar>v\<bar>
       in case Power_Supply device_dict of
            None \<Rightarrow> Inr ps_quads
          | Some ps_name \<Rightarrow>
              if ps_name \<in> set quad_ps_names then
                (case Power_Shunt device_dict of
                   None \<Rightarrow>
                     attach_quad ps_name name
                       \<lparr>or_name = ele_name, shunt = ''none'', qm_dB_dr = initial_field_str,
                        qm_polarity = polarity\<rparr> initial_field_str ps_quads
                 | Some shunt_name \<Rightarrow>
                     (case dd_Quadrupole_Power_Shunt devices_dict of
                        None \<Rightarrow> Inl (KeyError ''Quadrupole_Power_Shunt'')
                      | Some shunt_names \<Rightarrow>
                          if shunt_name \<in> set shunt_names then
                            attach_quad ps_name name
                              \<lparr>or_name = ele_name, shunt = shunt_name,
                               qm_dB_dr = initial_field_str, qm_polarity = polarity\<rparr>
                              initial_field_str ps_quads
                          else
                            attach_quad ps_name name
                              \<lparr>or_name = ele_name, shunt = ''none'',
                               qm_dB_dr = initial_field_str, qm_polarity = polarity\<rparr>
                              initial_field_str ps_quads))
              else Inr ps_quads
     else Inr ps_quads)"

text \<open>
  The devices constructed and added to the server, in order, each with the arguments of
  its constructor; a device passed to a constructor is given by its name. The
  constructors and \<open>server.add_device\<close> are not part of the sources under study: a call
  is recorded, what it does is not modelled.
\<close>

datatype constructed =
    Quadrupole_Power_Supply string pyfloat
  | Quadrupole_Power_Shunt string pyfloat
  | Quadrupole string string string "string option" int

definition quad_devices :: "string \<Rightarrow> pyfloat \<Rightarrow> string \<times> quad_model \<Rightarrow> constructed list" where
  "quad_devices ps_name ps_field = (\<lambda>(quad_name, quad_model).
     if shunt quad_model = ''none'' then
       [Quadrupole quad_name (or_name quad_model) ps_name None (qm_polarity quad_model)]
     else
       let shunt_name = shunt quad_model;
           field = qm_dB_dr quad_model;
           shunt_field = pf_rsub field ps_field
       in [Quadrupole_Power_Shunt shunt_name shunt_field,
           Quadrupole quad_name (or_name quad_model) ps_name (Some shunt_name)
             (qm_polarity quad_model)])"

definition ps_devices :: "string \<times> ps_dict \<Rightarrow> constructed list" where
  "ps_devices = (\<lambda>(ps_name, ps_dict).
     if quads ps_dict \<noteq> [] then
       let ps_field = min_field ps_dict
       in Quadrupole_Power_Supply ps_name ps_field #
          concat (map (quad_devices ps_name ps_field) (quads ps_dict))
     else [])"

text \<open>The three loops, from the reading of the power supply names to the last device.\<close>

definition quad_startup :: "model_env \<Rightarrow> devices_dict \<Rightarrow> exn + constructed list" where
  "quad_startup E devices_dict =
     (case dd_Quadrupole_Power_Supply devices_dict of
        None \<Rightarrow> Inl (KeyError ''Quadrupole_Power_Supply'')
      | Some quad_ps_names \<Rightarrow>
     let ps_quads = fold (\<lambda>name ps_quads.
                        AList.update name \<lparr>quads = [], min_field = PInf\<rparr> ps_quads)
                      quad_ps_names []
     in case dd_Quadrupole devices_dict of
          None \<Rightarrow> Inl (KeyError ''Quadrupole'')
        | Some quads_cfg \<Rightarrow>
     case for_each (add_quad E devices_dict quad_ps_names) quads_cfg ps_quads of
          Inl e \<Rightarrow> Inl e
        | Inr ps_quads \<Rightarrow> Inr (concat (map ps_devices ps_quads)))"

text \<open>
  The absolute initial field strengths of the configured quadrupoles connected to a power
  supply: those that are elements of the lattice, name it as their \<open>Power_Supply\<close>, and
  have a \<open>'dB/dr'\<close> in the model.
\<close>

definition connected :: "model_env \<Rightarrow> (string \<times> quad_config) list \<Rightarrow> string \<Rightarrow> real list" where
  "connected E quads_cfg ps_name =
     concat (map (\<lambda>(name, device_dict).
       case PyORBIT_Name device_dict of
         None \<Rightarrow> []
       | Some ele_name \<Rightarrow>
           if ele_name \<in> set (element_list E) \<and> Power_Supply device_dict = Some ps_name
           then (case dB_dr E ele_name of Inl e \<Rightarrow> [] | Inr v \<Rightarrow> [\<bar>v\<bar>])
           else []) quads_cfg)"

text \<open>
  A configuration of two power supplies and three quadrupoles, one of them not in the
  lattice; the first quadrupole has a shunt.
\<close>

definition demo_env :: model_env where
  "demo_env = \<lparr>element_list = [''Q1'', ''Q2'', ''Q3''],
     dB_dr = (\<lambda>n. if n = ''Q1'' then Inr (- 5) else if n = ''Q2'' then Inr 2
                   else if n = ''Q3'' then Inr 7 else Inl (KeyError n))\<rparr>"

definition demo_quads :: "(string \<times> quad_config) list" where
  "demo_quads =
     [(''QH01'', \<lparr>PyORBIT_Name = Some ''Q1'', Polarity = Some 1,
                  Power_Supply = Some ''PS_A'', Power_Shunt = Some ''Sh1''\<rparr>),
      (''QV02'', \<lparr>PyORBIT_Name = Some ''Q2'', Polarity = Some (- 1),
                  Power_Supply = Some ''PS_A'', Power_Shunt = None\<rparr>),
      (''QH09'', \<lparr>PyORBIT_Name = Some ''Q9'', Polarity = Some 1,
                  Power_Supply = Some ''PS_B'', Power_Shunt = None\<rparr>)]"

definition demo_devices_dict :: devices_dict where
  "demo_devices_dict = \<lparr>
     dd_Quadrupole_Power_Supply = Some [''PS_A'', ''PS_B''],
     dd_Quadrupole = Some demo_quads,
     dd_Quadrupole_Power_Shunt = Some [''Sh1'']\<rparr>"

text \<open>
  For the proofs: the smallest of a list of fields (\<open>math.inf\<close> for none); that an
  attached quadrupole comes from an entry of the configuration seen so far, with its
  element, field, power supply and shunt; and what holds of the dictionary of power
  supplies after the quadrupoles \<open>seen\<close> so far.
\<close>

definition least_field :: "real list \<Rightarrow> pyfloat" where
  "least_field xs = (if xs = [] then PInf else Fin (Min (set xs)))"

definition from_config ::
  "model_env \<Rightarrow> devices_dict \<Rightarrow> (string \<times> quad_config) list \<Rightarrow> string \<Rightarrow> string
     \<Rightarrow> quad_model \<Rightarrow> bool" where
  "from_config E devices_dict seen ps_name quad_name qm \<longleftrightarrow>
     (\<exists>c v. (quad_name, c) \<in> set seen \<and>
        PyORBIT_Name c = Some (or_name qm) \<and> or_name qm \<in> set (element_list E) \<and>
        dB_dr E (or_name qm) = Inr v \<and> qm_dB_dr qm = \<bar>v\<bar> \<and>
        Power_Supply c = Some ps_name \<and>
        (shunt qm \<noteq> ''none'' \<longrightarrow>
           Power_Shunt c = Some (shunt qm) \<and>
           (\<exists>shunt_names. dd_Quadrupole_Power_Shunt devices_dict = Some shunt_names \<and>
                          shunt qm \<in> set shunt_names)))"

definition ps_inv ::
  "model_env \<Rightarrow> devices_dict \<Rightarrow> string list \<Rightarrow> (string \<times> quad_config) list
     \<Rightarrow> (string \<times> ps_dict) list \<Rightarrow> bool" where
  "ps_inv E devices_dict quad_ps_names seen ps_quads \<longleftrightarrow>
     distinct (map fst ps_quads) \<and>
     fst ` set ps_quads = set quad_ps_names \<and>
     (\<forall>ps_name d. map_of ps_quads ps_name = Some d \<longrightarrow>
        min_field d = least_field (connected E seen ps_name) \<and>
        (quads d = [] \<longleftrightarrow> connected E seen ps_name = []) \<and>
        (\<forall>(qn, qm) \<in> set (quads d). from_config E devices_dict seen ps_name qn qm))"

section \<open>Properties of the control loop\<close>

lemma trace_emit: "trace (emit ev w) = trace w @ [ev]"
  by (simp add: emit_def)

lemma server_emit: "server (emit ev w) = server w"
  by (simp add: emit_def)

lemma model_emit: "model (emit ev w) = model w"
  by (simp add: emit_def)

lemma tick_completed_iff:
  "tick C w = Completed w' \<longleftrightarrow>
    (\<exists>p s1 m1 m2 ms s2 s3.
       srv_get_settings C (server w) = Inr p \<and>
       srv_update_readbacks C (server w) = Inr s1 \<and>
       mdl_update_optics C (model w) p = Inr m1 \<and>
       mdl_track C m1 = Inr m2 \<and>
       mdl_get_measurements C m2 = Inr ms \<and>
       srv_update_measurements C s1 ms = Inr s2 \<and>
       srv_update C s2 = Inr s3 \<and>
       w' = \<lparr>server = s3, model = m2, trace = trace w @ tick_calls\<rparr>)"
  by (auto simp: tick_def emit_def tick_calls_def Let_def split: sum.splits)

lemma tick_trace_take:
  "\<exists>n. trace (final_world (tick C w)) = trace w @ take n tick_calls \<and> 3 \<le> n"
proof -
  show ?thesis
    apply (simp add: tick_def emit_def Let_def split: sum.splits)
    apply (intro conjI allI impI)
    apply (rule exI[of _ 3], simp add: tick_calls_def)
    apply (rule exI[of _ 4], simp add: tick_calls_def)
    apply (rule exI[of _ 5], simp add: tick_calls_def)
    apply (rule exI[of _ 6], simp add: tick_calls_def)
    apply (rule exI[of _ 7], simp add: tick_calls_def)
    apply (rule exI[of _ 8], simp add: tick_calls_def)
    apply (rule exI[of _ 9], simp add: tick_calls_def)
    apply (rule exI[of _ 9], simp add: tick_calls_def)
    done
qed

lemma stub_tick:
  "tick stub world0 = Completed \<lparr>server = (1, 14), model = 14, trace = tick_calls\<rparr>"
  by (simp add: tick_def stub_def world0_def emit_def tick_calls_def)

text \<open>
  C1, as amended. Every tick makes its calls in the order of \<open>tick_calls\<close>, stopping at
  the first that raises: the loop snapshots the settings (\<open>get_settings\<close>), then
  recomputes the readbacks (\<open>update_readbacks\<close>), then calls \<open>update_optics\<close> and
  \<open>track\<close> of the model, reads the measurements, and only then calls
  \<open>update_measurements\<close> and the flush \<open>server.update\<close>. The readbacks are recomputed
  before the model is updated and tracked, from the server state the settings were read
  from; the measurements go into the server state the readback step left.
\<close>

theorem tick_call_order:
  "(\<exists>n. trace (final_world (tick C w)) = trace w @ take n tick_calls) \<and>
   (\<forall>w'. tick C w = Completed w' \<longrightarrow>
      trace w' = trace w @ tick_calls \<and>
      precedes GetSettings UpdateReadbacks tick_calls \<and>
      precedes UpdateReadbacks UpdateOptics tick_calls \<and>
      precedes UpdateOptics Track tick_calls \<and>
      precedes Track UpdateMeasurements tick_calls \<and>
      precedes UpdateMeasurements ServerUpdate tick_calls \<and>
      (\<exists>p s1 m1 ms s2.
         srv_get_settings C (server w) = Inr p \<and>
         srv_update_readbacks C (server w) = Inr s1 \<and>
         mdl_update_optics C (model w) p = Inr m1 \<and>
         mdl_track C m1 = Inr (model w') \<and>
         mdl_get_measurements C (model w') = Inr ms \<and>
         srv_update_measurements C s1 ms = Inr s2 \<and>
         srv_update C s2 = Inr (server w')))"
proof (intro conjI allI impI)
  show "\<exists>n. trace (final_world (tick C w)) = trace w @ take n tick_calls"
    using tick_trace_take[of C w] by blast
next
  fix w' assume c: "tick C w = Completed w'"
  then show "trace w' = trace w @ tick_calls"
    by (auto simp: tick_completed_iff)
  from c show "\<exists>p s1 m1 ms s2.
         srv_get_settings C (server w) = Inr p \<and>
         srv_update_readbacks C (server w) = Inr s1 \<and>
         mdl_update_optics C (model w) p = Inr m1 \<and>
         mdl_track C m1 = Inr (model w') \<and>
         mdl_get_measurements C (model w') = Inr ms \<and>
         srv_update_measurements C s1 ms = Inr s2 \<and>
         srv_update C s2 = Inr (server w')"
    by (auto simp: tick_completed_iff)
qed (simp_all add: tick_calls_def)

text \<open>A tick of the stub collaborators, from the initial world.\<close>

theorem tick_call_order_witness:
  "tick stub world0 = Completed \<lparr>server = (1, 14), model = 14, trace = tick_calls\<rparr> \<and>
   trace \<lparr>server = (1, 14), model = 14, trace = tick_calls\<rparr> = trace world0 @ tick_calls \<and>
   precedes UpdateReadbacks UpdateOptics tick_calls"
  using tick_call_order[of stub world0] stub_tick by simp

text \<open>
  C1 as it was stated puts the readback recomputation after the tracking step and after
  \<open>update_measurements\<close>. In a completed tick of the stub collaborators neither call
  comes before \<open>update_readbacks\<close>.
\<close>

theorem readbacks_after_tracking_counterexample:
  "tick stub world0 = Completed \<lparr>server = (1, 14), model = 14,
      trace = [TimeTime, EpicsNow, GetSettings, UpdateReadbacks, UpdateOptics,
               Track, GetMeasurements, UpdateMeasurements, ServerUpdate]\<rparr> \<and>
   \<not> precedes Track UpdateReadbacks (trace (final_world (tick stub world0))) \<and>
   \<not> precedes UpdateMeasurements UpdateReadbacks (trace (final_world (tick stub world0)))"
  by (simp add: tick_def stub_def world0_def emit_def)


lemma tick_raised_model:
  assumes "srv_get_settings C (server w) = Inr p"
      and "srv_update_readbacks C (server w) = Inr s1"
      and "mdl_update_optics C (model w) p = Inl e \<or>
           (\<exists>m1. mdl_update_optics C (model w) p = Inr m1 \<and> mdl_track C m1 = Inl e)"
  shows "\<exists>w'. tick C w = Raised e w' \<and> server w' = s1 \<and>
           (trace w' = trace w @ take 5 tick_calls \<or> trace w' = trace w @ take 6 tick_calls)"
  using assms
  by (auto simp: tick_def emit_def Let_def tick_calls_def split: sum.splits)

text \<open>
  C2, as amended. When \<open>update_optics\<close> or \<open>track\<close> of the model raises in a tick, the
  exception leaves the loop: the run ends as \<open>Crashed\<close> with that exception, whatever the
  environment would have answered later, and nothing is printed. In that tick the calls
  stop at the one that raised, so neither \<open>update_measurements\<close> nor \<open>server.update\<close>
  is made: the server is left in the state \<open>update_readbacks\<close> returned.
\<close>

theorem model_error_ends_loop:
  assumes "flag i"
      and "srv_get_settings C (server w) = Inr p"
      and "srv_update_readbacks C (server w) = Inr s1"
      and "mdl_update_optics C (model w) p = Inl e \<or>
           (\<exists>m1. mdl_update_optics C (model w) p = Inr m1 \<and> mdl_track C m1 = Inl e)"
  shows "\<exists>w'. main_loop C update_period (i # rest) w = (Crashed e, w') \<and>
           server w' = s1 \<and>
           (trace w' = trace w @ [NotCtrlc True, TimeTime, EpicsNow, GetSettings,
                                  UpdateReadbacks, UpdateOptics] \<or>
            trace w' = trace w @ [NotCtrlc True, TimeTime, EpicsNow, GetSettings,
                                  UpdateReadbacks, UpdateOptics, Track])"
proof -
  let ?w1 = "emit (NotCtrlc (flag i)) w"
  have "srv_get_settings C (server ?w1) = Inr p"
       "srv_update_readbacks C (server ?w1) = Inr s1"
       "mdl_update_optics C (model ?w1) p = Inl e \<or>
           (\<exists>m1. mdl_update_optics C (model ?w1) p = Inr m1 \<and> mdl_track C m1 = Inl e)"
    using assms by (simp_all add: emit_def)
  from tick_raised_model[OF this] obtain w' where
    w': "tick C ?w1 = Raised e w'" "server w' = s1"
        "trace w' = trace ?w1 @ take 5 tick_calls \<or> trace w' = trace ?w1 @ take 6 tick_calls"
    by blast
  have "main_loop C update_period (i # rest) w = (Crashed e, w')"
    using assms(1) w'(1) by simp
  moreover have "trace w' = trace w @ [NotCtrlc True, TimeTime, EpicsNow, GetSettings,
                                  UpdateReadbacks, UpdateOptics] \<or>
            trace w' = trace w @ [NotCtrlc True, TimeTime, EpicsNow, GetSettings,
                                  UpdateReadbacks, UpdateOptics, Track]"
    using w'(3) assms(1) by (auto simp: emit_def tick_calls_def)
  ultimately show ?thesis using w'(2) by blast
qed

text \<open>The stub model whose \<open>track\<close> raises, run for two iterations.\<close>

theorem model_error_ends_loop_witness:
  "\<exists>w'. main_loop stub_failing_track 1 (cycle_ok # [cycle_ok]) world0
           = (Crashed (Exception ''unknown element''), w') \<and>
         server w' = (1, 0) \<and>
         (trace w' = trace world0 @ [NotCtrlc True, TimeTime, EpicsNow, GetSettings,
                                  UpdateReadbacks, UpdateOptics] \<or>
          trace w' = trace world0 @ [NotCtrlc True, TimeTime, EpicsNow, GetSettings,
                                  UpdateReadbacks, UpdateOptics, Track])"
  by (rule model_error_ends_loop[where p = 7])
     (simp_all add: stub_failing_track_def stub_def world0_def cycle_ok_def)

text \<open>
  C2 as it was stated has the loop log the error and go on to the next tick. With a
  \<open>track\<close> that raises and an environment that never cancels, the run of two iterations
  ends in the first one: no second check of the flag, no printed line.
\<close>

theorem model_error_continues_counterexample:
  "main_loop stub_failing_track 1 [cycle_ok, cycle_ok] world0 =
     (Crashed (Exception ''unknown element''),
      \<lparr>server = (1, 0), model = 7,
       trace = [NotCtrlc True, TimeTime, EpicsNow, GetSettings, UpdateReadbacks,
                UpdateOptics, Track]\<rparr>)"
  by (simp add: stub_failing_track_def stub_def world0_def cycle_ok_def tick_def emit_def)

lemma pace_eq:
  "pace update_period i w = w\<lparr>trace := trace w @ [TimeTime, sleep_decision update_period i]\<rparr>"
  by (auto simp: pace_def sleep_decision_def emit_def Let_def)

lemma main_loop_trace_extends:
  "\<exists>evs. trace (snd (main_loop C update_period cs w)) = trace w @ evs"
proof (induction cs arbitrary: w)
  case Nil
  show ?case by simp
next
  case (Cons i cs)
  show ?case
  proof (cases "flag i")
    case False
    then show ?thesis by (simp add: emit_def)
  next
    case True
    let ?w1 = "emit (NotCtrlc (flag i)) w"
    obtain n where n: "trace (final_world (tick C ?w1)) = trace ?w1 @ take n tick_calls"
      using tick_trace_take[of C ?w1] by blast
    show ?thesis
    proof (cases "tick C ?w1")
      case (Raised e w2)
      with n True show ?thesis by (simp add: emit_def)
    next
      case (Completed w2)
      obtain evs where
        "trace (snd (main_loop C update_period cs (pace update_period i w2)))
           = trace (pace update_period i w2) @ evs"
        using Cons.IH by blast
      with n True Completed show ?thesis by (simp add: emit_def pace_eq)
    qed
  qed
qed

lemma main_loop_starts_collecting:
  assumes "flag j"
  shows "\<exists>evs. trace (snd (main_loop C update_period (j # cs) w))
            = trace w @ [NotCtrlc True, TimeTime, EpicsNow, GetSettings] @ evs"
proof -
  let ?w1 = "emit (NotCtrlc (flag j)) w"
  obtain n where n: "trace (final_world (tick C ?w1)) = trace ?w1 @ take n tick_calls" "3 \<le> n"
    using tick_trace_take[of C ?w1] by blast
  have tk: "take n tick_calls = [TimeTime, EpicsNow, GetSettings] @ drop 3 (take n tick_calls)"
    using n(2) by (cases n rule: nat.exhaust; simp add: tick_calls_def take_Cons')
  show ?thesis
  proof (cases "tick C ?w1")
    case (Raised e w2)
    with n(1) assms tk show ?thesis by (simp add: emit_def) (metis append_Cons append_Nil)
  next
    case (Completed w2)
    obtain evs where
      "trace (snd (main_loop C update_period cs (pace update_period j w2)))
         = trace (pace update_period j w2) @ evs"
      using main_loop_trace_extends by blast
    with n(1) assms Completed tk show ?thesis
      by (simp add: emit_def pace_eq) (metis append_Cons append_Nil)
  qed
qed

text \<open>
  C3. In an iteration whose tick completed, with \<open>elapsed = t_end - t_start\<close>: when
  \<open>elapsed\<close> exceeds the period the iteration ends with the second clock reading and one
  printed warning, and no sleep; otherwise it ends with the clock reading and a sleep of
  \<open>update_period - elapsed\<close>, and no warning. In both cases the loop goes on with the
  rest of the environment's answers, and when the next check of the flag passes the next
  iteration reads the clock and calls \<open>get_settings\<close>.
\<close>

theorem sleep_or_warn:
  assumes "flag i" and "tick C (emit (NotCtrlc True) w) = Completed w2"
  shows "main_loop C update_period (i # rest) w =
           main_loop C update_period rest
             (w2\<lparr>trace := trace w2 @
                [TimeTime,
                 if update_period < t_end i - t_start i then Print overrun_warning
                 else Sleep (update_period - (t_end i - t_start i))]\<rparr>) \<and>
         (\<forall>j cs. rest = j # cs \<and> flag j \<longrightarrow>
            (\<exists>evs. trace (snd (main_loop C update_period (i # rest) w)) =
               trace w2 @
               [TimeTime,
                if update_period < t_end i - t_start i then Print overrun_warning
                else Sleep (update_period - (t_end i - t_start i))] @
               [NotCtrlc True, TimeTime, EpicsNow, GetSettings] @ evs))"
proof -
  let ?d = "if update_period < t_end i - t_start i then Print overrun_warning
            else Sleep (update_period - (t_end i - t_start i))"
  let ?w3 = "w2\<lparr>trace := trace w2 @ [TimeTime, ?d]\<rparr>"
  have step: "main_loop C update_period (i # rest) w = main_loop C update_period rest ?w3"
    using assms by (simp add: pace_eq sleep_decision_def Let_def)
  have "\<exists>evs. trace (snd (main_loop C update_period (i # rest) w)) =
               trace w2 @ [TimeTime, ?d] @ [NotCtrlc True, TimeTime, EpicsNow, GetSettings] @ evs"
    if r: "rest = j # cs" and fj: "flag j" for j cs
  proof -
    obtain evs where e: "trace (snd (main_loop C update_period (j # cs) ?w3))
            = trace ?w3 @ [NotCtrlc True, TimeTime, EpicsNow, GetSettings] @ evs"
      using main_loop_starts_collecting[OF fj] by blast
    have t3: "trace ?w3 = trace w2 @ [TimeTime, ?d]" by simp
    have "main_loop C update_period (i # rest) w = main_loop C update_period (j # cs) ?w3"
      using step r by (simp only:)
    then have "trace (snd (main_loop C update_period (i # rest) w)) =
               trace w2 @ [TimeTime, ?d] @ [NotCtrlc True, TimeTime, EpicsNow, GetSettings] @ evs"
      using e t3 by (simp only: append_assoc)
    then show ?thesis by (rule exI)
  qed
  with step show ?thesis by blast
qed

text \<open>An overrunning iteration and one within the period, each followed by another.\<close>

theorem sleep_or_warn_witness:
  "main_loop stub 1 (cycle_late # [cycle_ok]) world0 =
     main_loop stub 1 [cycle_ok]
       \<lparr>server = (1, 14), model = 14,
        trace = NotCtrlc True # tick_calls @ [TimeTime, Print overrun_warning]\<rparr> \<and>
   main_loop stub 1 (cycle_ok # [cycle_ok]) world0 =
     main_loop stub 1 [cycle_ok]
       \<lparr>server = (1, 14), model = 14,
        trace = NotCtrlc True # tick_calls @ [TimeTime, Sleep (3 / 4)]\<rparr>"
proof -
  have t: "tick stub (emit (NotCtrlc True) world0) =
      Completed \<lparr>server = (1, 14), model = 14, trace = NotCtrlc True # tick_calls\<rparr>"
    by (simp add: tick_def stub_def world0_def emit_def tick_calls_def)
  have f: "flag cycle_late" "flag cycle_ok" by (simp_all add: cycle_late_def cycle_ok_def)
  from sleep_or_warn[OF f(1) t, of 1 "[cycle_ok]"] sleep_or_warn[OF f(2) t, of 1 "[cycle_ok]"]
  show ?thesis by (simp add: cycle_late_def cycle_ok_def)
qed






section \<open>Properties of the dummy diagnostic devices\<close>

lemma for_each_noop:
  "(\<And>x. x \<in> set xs \<Longrightarrow> body x s = Inr s) \<Longrightarrow> for_each body xs s = Inr s"
  by (induction xs) auto

lemma update_measurement_model_name:
  "update_measurement self reason v = Inr self' \<Longrightarrow> dev_model_name self' = dev_model_name self"
  by (auto simp: update_measurement_def split: option.splits)

lemma bcm_inner_no_beta:
  "map_of pd beta_key = None \<Longrightarrow> bcm_inner pd self = Inr self"
  unfolding bcm_inner_def
  by (rule for_each_noop) (auto simp: map_of_eq_None_iff image_iff)

lemma bcm_inner_beta:
  "distinct (map fst pd) \<Longrightarrow> map_of pd beta_key = Some beta \<Longrightarrow>
   bcm_inner pd self = update_measurement self freq_pv (beta * c_light / ring_length)"
proof (induction pd arbitrary: self)
  case Nil
  then show ?case by simp
next
  case (Cons kv pd)
  obtain k v where kv: "kv = (k, v)" by (cases kv)
  show ?case
  proof (cases "k = beta_key")
    case True
    with Cons.prems kv have v: "v = beta" and no: "map_of pd beta_key = None"
      by (auto simp: map_of_eq_None_iff)
    have rest: "\<And>s. bcm_inner pd s = Inr s" using no by (rule bcm_inner_no_beta)
    show ?thesis
      using True kv v rest
      by (auto simp: bcm_inner_def Let_def split: sum.splits)
  next
    case False
    with Cons.prems kv have "distinct (map fst pd)" "map_of pd beta_key = Some beta"
      by auto
    from Cons.IH[OF this] False kv show ?thesis
      by (simp add: bcm_inner_def)
  qed
qed

lemma bcm_inner_model_name:
  "bcm_inner pd self = Inr self' \<Longrightarrow> dev_model_name self' = dev_model_name self"
proof (induction pd arbitrary: self)
  case Nil
  then show ?case by (simp add: bcm_inner_def)
next
  case (Cons kv pd)
  then show ?case
    by (auto simp: bcm_inner_def Let_def split: sum.splits if_splits prod.splits
             dest: update_measurement_model_name)
qed

lemma bcm_outer_eq:
  "SNS_Dummy_BCM_update_measurements self (Some d) =
     for_each (\<lambda>(model_name, param_dict) self.
        if model_name = dev_model_name self then bcm_inner param_dict self else Inr self) d self"
  by (simp only: SNS_Dummy_BCM_update_measurements_def option.case)

lemma bcm_outer_no_entry:
  "map_of d (dev_model_name self) = None \<Longrightarrow>
   SNS_Dummy_BCM_update_measurements self (Some d) = Inr self"
  unfolding bcm_outer_eq
  by (rule for_each_noop) (auto simp: map_of_eq_None_iff image_iff)

lemma bcm_outer_entry:
  "distinct (map fst d) \<Longrightarrow> map_of d (dev_model_name self) = Some pd \<Longrightarrow>
   SNS_Dummy_BCM_update_measurements self (Some d) = bcm_inner pd self"
proof (induction d arbitrary: self)
  case Nil
  then show ?case by simp
next
  case (Cons kv d)
  obtain k v where kv: "kv = (k, v)" by (cases kv)
  show ?case
  proof (cases "k = dev_model_name self")
    case True
    with Cons.prems kv have v: "v = pd" and no: "map_of d (dev_model_name self) = None"
      by (auto simp: map_of_eq_None_iff)
    show ?thesis
    proof (cases "bcm_inner pd self")
      case (Inl e)
      with True kv v show ?thesis by (simp add: bcm_outer_eq)
    next
      case (Inr s')
      then have "dev_model_name s' = dev_model_name self" by (rule bcm_inner_model_name)
      with no have "SNS_Dummy_BCM_update_measurements s' (Some d) = Inr s'"
        by (simp add: bcm_outer_no_entry)
      with Inr True kv v show ?thesis by (simp add: bcm_outer_eq)
    qed
  next
    case False
    with Cons.prems kv have "distinct (map fst d)" "map_of d (dev_model_name self) = Some pd"
      by auto
    from Cons.IH[OF this] False kv show ?thesis
      by (simp add: bcm_outer_eq)
  qed
qed

text \<open>
  C5. For a device whose frequency measurement \<open>FFT_peak2\<close> is registered and a
  model-output dictionary \<open>new_params\<close> (a dictionary: its keys are distinct): when
  \<open>new_params\<close> has an entry for the device's \<open>model_name\<close> whose parameter dictionary
  holds \<open>beta\<close> under the key \<open>'beta'\<close>, \<open>update_measurements\<close> puts
  \<open>beta * 299792458 / 247.967\<close> into the frequency measurement and changes nothing else;
  when there is no such entry, the device is left as it was.
\<close>

theorem bcm_frequency_from_beta:
  assumes "distinct (map fst new_params)"
      and "measurements self ''FFT_peak2'' = Some m"
  shows "(\<forall>param_dict beta.
            map_of new_params (dev_model_name self) = Some param_dict \<and>
            distinct (map fst param_dict) \<and> map_of param_dict ''beta'' = Some beta \<longrightarrow>
            (\<exists>self'. SNS_Dummy_BCM_update_measurements self (Some new_params) = Inr self' \<and>
               self' = self\<lparr>measurements := (measurements self)
                              (''FFT_peak2'' \<mapsto> m\<lparr>ms_value := Some (beta * 299792458 / 247.967)\<rparr>)\<rparr> \<and>
               published self' ''FFT_peak2'' = Some (beta * 299792458 / 247.967))) \<and>
         ((\<forall>param_dict. map_of new_params (dev_model_name self) = Some param_dict \<longrightarrow>
                        map_of param_dict ''beta'' = None) \<longrightarrow>
            SNS_Dummy_BCM_update_measurements self (Some new_params) = Inr self)"
proof (intro conjI allI impI)
  fix param_dict beta
  assume a: "map_of new_params (dev_model_name self) = Some param_dict \<and>
            distinct (map fst param_dict) \<and> map_of param_dict ''beta'' = Some beta"
  then have p: "map_of new_params (dev_model_name self) = Some param_dict"
    and dp: "distinct (map fst param_dict)" and b: "map_of param_dict beta_key = Some beta"
    by (simp_all only: beta_key_def)
  have "SNS_Dummy_BCM_update_measurements self (Some new_params) =
             update_measurement self freq_pv (beta * c_light / ring_length)"
    by (simp only: bcm_outer_entry[OF assms(1) p] bcm_inner_beta[OF dp b])
  then show "\<exists>self'. SNS_Dummy_BCM_update_measurements self (Some new_params) = Inr self' \<and>
               self' = self\<lparr>measurements := (measurements self)
                              (''FFT_peak2'' \<mapsto> m\<lparr>ms_value := Some (beta * 299792458 / 247.967)\<rparr>)\<rparr> \<and>
               published self' ''FFT_peak2'' = Some (beta * 299792458 / 247.967)"
    using assms(2)
    by (simp add: update_measurement_def freq_pv_def c_light_def ring_length_def published_def)
next
  assume n: "\<forall>param_dict. map_of new_params (dev_model_name self) = Some param_dict \<longrightarrow>
                        map_of param_dict ''beta'' = None"
  show "SNS_Dummy_BCM_update_measurements self (Some new_params) = Inr self"
  proof (cases "map_of new_params (dev_model_name self)")
    case None
    then show ?thesis by (rule bcm_outer_no_entry)
  next
    case (Some pd)
    with n have "map_of pd beta_key = None" by (simp only: beta_key_def)
    then have "bcm_inner pd self = Inr self" by (rule bcm_inner_no_beta)
    then show ?thesis by (simp only: bcm_outer_entry[OF assms(1) Some])
  qed
qed

text \<open>The device of \<open>main\<close>, with and without a \<open>'beta'\<close> for its element.\<close>

theorem bcm_frequency_from_beta_witness:
  "(\<exists>self'. SNS_Dummy_BCM_update_measurements bcm_d09
        (Some [(''MEBT_Diag:BPM01'', [(''beta'', 1 / 4)]),
               (''HEBT_Diag:BPM11'', [(''energy'', 1), (''beta'', 1 / 2)])]) = Inr self' \<and>
      published self' ''FFT_peak2'' = Some (1 / 2 * 299792458 / 247.967)) \<and>
   SNS_Dummy_BCM_update_measurements bcm_d09
        (Some [(''HEBT_Diag:BPM11'', [(''energy'', 1)])]) = Inr bcm_d09"
proof -
  have m: "measurements bcm_d09 ''FFT_peak2'' = Some \<lparr>ms_noise = None, ms_value = None\<rparr>"
    and n: "dev_model_name bcm_d09 = ''HEBT_Diag:BPM11''"
    by (simp_all add: bcm_d09_def SNS_Dummy_BCM_init_def Device_init_def register_measurement_def
          freq_pv_def Let_def)
  have d1: "distinct (map fst [(''MEBT_Diag:BPM01'', [(''beta'', 1 / 4 :: real)]),
               (''HEBT_Diag:BPM11'', [(''energy'', 1), (''beta'', 1 / 2)])])"
    and d2: "distinct (map fst [(''HEBT_Diag:BPM11'', [(''energy'', 1 :: real)])])"
    by simp_all
  have e: "map_of [(''MEBT_Diag:BPM01'', [(''beta'', 1 / 4 :: real)]),
               (''HEBT_Diag:BPM11'', [(''energy'', 1), (''beta'', 1 / 2)])]
             (dev_model_name bcm_d09) = Some [(''energy'', 1), (''beta'', 1 / 2)] \<and>
           distinct (map fst [(''energy'', 1 :: real), (''beta'', 1 / 2)]) \<and>
           map_of [(''energy'', 1 :: real), (''beta'', 1 / 2)] ''beta'' = Some (1 / 2)"
    using n by simp
  have f: "\<forall>param_dict. map_of [(''HEBT_Diag:BPM11'', [(''energy'', 1 :: real)])]
               (dev_model_name bcm_d09) = Some param_dict \<longrightarrow>
             map_of param_dict ''beta'' = None"
    using n by simp
  from bcm_frequency_from_beta[OF d1 m, THEN conjunct1, rule_format, OF e]
       bcm_frequency_from_beta[OF d2 m, THEN conjunct2, THEN mp, OF f]
  show ?thesis by blast
qed


text \<open>
  C7, as amended. \<open>SNS_Dummy_ICS\<close> has no effect on the model and takes nothing from
  it: \<open>get_settings\<close> returns the empty dictionary in every state, and
  \<open>update_measurements\<close> puts 1 into the beam-on measurement and 0 into the event
  measurement (both registered by the constructor), with the same result for any two
  arguments. Nothing is claimed for \<open>SNS_Dummy_BCM\<close>, whose frequency comes from the
  model output.
\<close>

theorem ics_ignores_model_output:
  assumes "measurements self ''Gate_BeamOn:RR'' = Some m1"
      and "measurements self ''Util:event46'' = Some m2"
  shows "SNS_Dummy_ICS_get_settings self = [] \<and>
         (\<exists>self'. SNS_Dummy_ICS_update_measurements self x = Inr self' \<and>
                  SNS_Dummy_ICS_update_measurements self y = Inr self' \<and>
                  published self' ''Gate_BeamOn:RR'' = Some 1 \<and>
                  published self' ''Util:event46'' = Some 0)"
  using assms
  by (simp add: SNS_Dummy_ICS_get_settings_def SNS_Dummy_ICS_update_measurements_def
        update_measurement_def beam_on_pv_def event_pv_def published_def)

text \<open>The device of \<open>main\<close>, updated with no argument and with a model output.\<close>

theorem ics_ignores_model_output_witness:
  "SNS_Dummy_ICS_get_settings ics_tim = [] \<and>
   (\<exists>self'. SNS_Dummy_ICS_update_measurements ics_tim (None :: model_dict option) = Inr self' \<and>
            SNS_Dummy_ICS_update_measurements ics_tim
               (Some [(''HEBT_Diag:BPM11'', [(''beta'', 1 / 2 :: real)])]) = Inr self' \<and>
            published self' ''Gate_BeamOn:RR'' = Some 1 \<and>
            published self' ''Util:event46'' = Some 0)"
proof -
  have m: "measurements ics_tim ''Gate_BeamOn:RR'' = Some \<lparr>ms_noise = Some (AbsNoise (1 / 10 ^ 2)), ms_value = None\<rparr>"
          "measurements ics_tim ''Util:event46'' = Some \<lparr>ms_noise = Some (AbsNoise (1 / 10 ^ 9)), ms_value = None\<rparr>"
    by (simp_all add: ics_tim_def SNS_Dummy_ICS_init_def Device_init_def register_measurement_def
          register_setting_def beam_on_pv_def event_pv_def Let_def)
  show ?thesis by (rule ics_ignores_model_output[OF m])
qed

text \<open>
  C7 as it was stated holds of every dummy diagnostic device. \<open>SNS_Dummy_BCM\<close> is one,
  and the value it publishes follows the model output it is given: two outputs that
  differ in \<open>'beta'\<close> give two frequencies.
\<close>

theorem dummy_bcm_uses_model_output_counterexample:
  "\<exists>d1 d2.
     SNS_Dummy_BCM_update_measurements bcm_d09 (Some [(''HEBT_Diag:BPM11'', [(''beta'', 1)])]) = Inr d1 \<and>
     SNS_Dummy_BCM_update_measurements bcm_d09 (Some [(''HEBT_Diag:BPM11'', [(''beta'', 2)])]) = Inr d2 \<and>
     published d1 ''FFT_peak2'' = Some (1 * 299792458 / 247.967) \<and>
     published d2 ''FFT_peak2'' = Some (2 * 299792458 / 247.967) \<and>
     published d1 ''FFT_peak2'' \<noteq> published d2 ''FFT_peak2''"
  by (simp add: SNS_Dummy_BCM_update_measurements_def bcm_inner_def bcm_d09_def
        SNS_Dummy_BCM_init_def Device_init_def register_measurement_def update_measurement_def published_def
        freq_pv_def beta_key_def c_light_def ring_length_def Let_def)

section \<open>Properties of the magnet devices\<close>

lemma startswith_iff: "startswith s p \<longleftrightarrow> (\<exists>t. s = p @ t)"
  by (induction s p rule: startswith.induct) auto

lemma replace_first_absent:
  "\<not> str_contains old s \<Longrightarrow> replace_first old new s = s"
  by (induction s) auto

lemma startswith_append_longer:
  assumes "startswith (x @ y) p" and "length p \<le> length x"
  shows "startswith x p"
proof -
  from assms(1) obtain t where t: "x @ y = p @ t" by (auto simp: startswith_iff)
  have "take (length p) (x @ y) = take (length p) x" using assms(2) by simp
  with t have "take (length p) x = p" by simp
  then have "x = p @ drop (length p) x" by (metis append_take_drop_id)
  then show ?thesis by (auto simp: startswith_iff)
qed

lemma replace_first_at_first:
  assumes "old \<noteq> []" and "\<not> str_contains old (a @ butlast old)"
  shows "replace_first old new (a @ old @ b) = a @ new @ b"
  using assms(2)
proof (induction a)
  case Nil
  obtain c cs where o: "old = c # cs" using assms(1) by (cases old) auto
  have "startswith (old @ b) old" by (auto simp: startswith_iff)
  then show ?case using o by simp
next
  case (Cons c a)
  from Cons.prems have ns: "\<not> startswith ((c # a) @ butlast old) old"
    and nc: "\<not> str_contains old (a @ butlast old)" by auto
  have "length old \<le> length ((c # a) @ butlast old)" by simp
  then have "\<not> startswith (((c # a) @ butlast old) @ [last old] @ b) old"
    using ns startswith_append_longer by blast
  moreover have e: "butlast old @ last old # b = old @ b"
    using assms(1) by (metis append_butlast_last_id append_Cons append_Nil append_assoc)
  ultimately have "\<not> startswith (c # a @ old @ b) old" by (simp add: e)
  with Cons.IH[OF nc] show ?case by simp
qed

lemma quadrupole_readback:
  assumes "SNS_Quadrupole_init Q Quadrupole_init name model_name initial_dict = Inr dev"
  shows "\<exists>base v pol field_param.
           Quadrupole_init name (case model_name of None \<Rightarrow> name | Some m \<Rightarrow> m) initial_dict = Inr base \<and>
           (case initial_dict of None \<Rightarrow> v = 0 | Some d \<Rightarrow> map_of d (q_field_key Q) = Some v) \<and>
           pol = (if str_contains ''PS_QH'' name then - 1 else 1) \<and>
           field_param = fst (register_setting base (q_field_set_pv Q)
                               (transform_raw (LinearTInv pol) v) (LinearTInv pol)) \<and>
           readbacks dev (q_field_readback_pv Q) =
             Some \<lparr>rb_link = field_param, rb_noise = Some (AbsNoise (1 / 10 ^ 6)),
                    rb_transform = IdentityT,
                    rb_name_override = Some (replace_first ''PS_'' '''' name)\<rparr> \<and>
           settings dev (q_field_set_pv Q) = Some field_param"
  using assms
  by (auto simp: SNS_Quadrupole_init_def register_setting_def register_readback_def Let_def dict_get_def
           split: sum.splits option.splits)

lemma doublet_readback:
  assumes "SNS_Quadrupole_Doublet_init D Quadrupole_Doublet_init name h_model_name v_model_name
             initial_dict = Inr dev"
  shows "\<exists>base v pol field_param.
           Quadrupole_Doublet_init name h_model_name v_model_name initial_dict = Inr base \<and>
           (case initial_dict of None \<Rightarrow> v = 0 | Some d \<Rightarrow> map_of d (d_field_key D) = Some v) \<and>
           pol = (if str_contains ''SCL'' name then - 1 else 1) \<and>
           field_param = fst (register_setting base (d_field_set_pv D)
                               (transform_raw (LinearTInv pol) v) (LinearTInv pol)) \<and>
           readbacks dev (d_field_readback_pv D) =
             Some \<lparr>rb_link = field_param, rb_noise = Some (AbsNoise (1 / 10 ^ 6)),
                    rb_transform = IdentityT,
                    rb_name_override = Some (replace_first ''PS_'' '''' name)\<rparr> \<and>
           settings dev (d_field_set_pv D) = Some field_param"
  using assms
  by (auto simp: SNS_Quadrupole_Doublet_init_def register_setting_def register_readback_def Let_def dict_get_def
           split: sum.splits option.splits)

lemma quadrupole_set_readback:
  assumes "SNS_Quadrupole_Set_init Q S Quadrupole_Set_init name model_names initial_dict = Inr dev"
  shows "\<exists>base v pol field_param.
           Quadrupole_Set_init name model_names initial_dict = Inr base \<and>
           (case initial_dict of None \<Rightarrow> v = 0 | Some d \<Rightarrow> map_of d (q_field_key Q) = Some v) \<and>
           pol = (if str_contains ''SCL'' name then - 1 else 1) \<and>
           field_param = fst (register_setting base (s_field_set_pv S)
                               (transform_raw (LinearTInv pol) v) (LinearTInv pol)) \<and>
           readbacks dev (s_field_readback_pv S) =
             Some \<lparr>rb_link = field_param, rb_noise = Some (AbsNoise (1 / 10 ^ 6)),
                    rb_transform = IdentityT,
                    rb_name_override = Some (replace_first ''PS_'' '''' name)\<rparr> \<and>
           settings dev (s_field_set_pv S) = Some field_param"
  using assms
  by (auto simp: SNS_Quadrupole_Set_init_def register_setting_def register_readback_def Let_def dict_get_def
           split: sum.splits option.splits)

lemma corrector_readback:
  assumes "SNS_Corrector_init K Corrector_init name corrector_model_name initial_dict = Inr dev"
  shows "\<exists>base v pol field_param.
           Corrector_init name corrector_model_name initial_dict = Inr base \<and>
           (case initial_dict of None \<Rightarrow> v = 0 | Some d \<Rightarrow> map_of d (c_field_key K) = Some v) \<and>
           pol = (if str_contains ''SCL'' name then - 1 else 1) \<and>
           field_param = fst (register_setting base (c_field_set_pv K)
                               (transform_raw (LinearTInv pol) v) (LinearTInv pol)) \<and>
           readbacks dev (c_field_readback_pv K) =
             Some \<lparr>rb_link = field_param, rb_noise = Some (AbsNoise (1 / 10 ^ 6)),
                    rb_transform = IdentityT,
                    rb_name_override = Some (replace_first ''PS_'' '''' name)\<rparr> \<and>
           (c_field_high_limit_pv K \<noteq> c_field_set_pv K \<and>
            c_field_low_limit_pv K \<noteq> c_field_set_pv K \<longrightarrow>
            settings dev (c_field_set_pv K) = Some field_param)"
  using assms
  by (auto simp: SNS_Corrector_init_def register_setting_def register_readback_def Let_def dict_get_def
           split: sum.splits option.splits)

text \<open>
  C6. Every \<open>SNS_Quadrupole\<close>, \<open>SNS_Quadrupole_Doublet\<close>, \<open>SNS_Quadrupole_Set\<close> and
  \<open>SNS_Corrector\<close> that its initializer constructs has, under the field readback PV, a
  readback linked to the very Parameter that \<open>register_setting\<close> returned for the field
  setting PV: the one made on the device the superclass initializer left, from the
  initial field (0 without \<open>initial_dict\<close>) and the polarity of the class, and the one the
  device holds under the field setting PV (for the corrector as long as its two limit
  PVs are not named like the field setting PV, which they would overwrite). The readback
  has the noise of 1e-6 and is published under \<open>name.replace('PS_', '', 1)\<close>. That name
  is the device's name without its first \<open>PS_\<close>: it is \<open>a @ b\<close> when the name is
  \<open>a @ ''PS_'' @ b\<close> with no earlier \<open>PS_\<close>, and the name itself when \<open>PS_\<close> does not
  occur in it.
\<close>

theorem sns_magnet_readback_linked_and_renamed:
  "(\<forall>dev. SNS_Quadrupole_init Q Quadrupole_init name model_name initial_dict = Inr dev \<longrightarrow>
      (\<exists>base v pol field_param.
           Quadrupole_init name (case model_name of None \<Rightarrow> name | Some m \<Rightarrow> m) initial_dict = Inr base \<and>
           (case initial_dict of None \<Rightarrow> v = 0 | Some d \<Rightarrow> map_of d (q_field_key Q) = Some v) \<and>
           pol = (if str_contains ''PS_QH'' name then - 1 else 1) \<and>
           field_param = fst (register_setting base (q_field_set_pv Q)
                               (transform_raw (LinearTInv pol) v) (LinearTInv pol)) \<and>
           readbacks dev (q_field_readback_pv Q) =
             Some \<lparr>rb_link = field_param, rb_noise = Some (AbsNoise (1 / 10 ^ 6)),
                    rb_transform = IdentityT,
                    rb_name_override = Some (replace_first ''PS_'' '''' name)\<rparr> \<and>
           settings dev (q_field_set_pv Q) = Some field_param)) \<and>
   (\<forall>dev. SNS_Quadrupole_Doublet_init D Quadrupole_Doublet_init name h_model_name v_model_name
             initial_dict = Inr dev \<longrightarrow>
      (\<exists>base v pol field_param.
           Quadrupole_Doublet_init name h_model_name v_model_name initial_dict = Inr base \<and>
           (case initial_dict of None \<Rightarrow> v = 0 | Some d \<Rightarrow> map_of d (d_field_key D) = Some v) \<and>
           pol = (if str_contains ''SCL'' name then - 1 else 1) \<and>
           field_param = fst (register_setting base (d_field_set_pv D)
                               (transform_raw (LinearTInv pol) v) (LinearTInv pol)) \<and>
           readbacks dev (d_field_readback_pv D) =
             Some \<lparr>rb_link = field_param, rb_noise = Some (AbsNoise (1 / 10 ^ 6)),
                    rb_transform = IdentityT,
                    rb_name_override = Some (replace_first ''PS_'' '''' name)\<rparr> \<and>
           settings dev (d_field_set_pv D) = Some field_param)) \<and>
   (\<forall>dev. SNS_Quadrupole_Set_init Q S Quadrupole_Set_init name model_names initial_dict = Inr dev \<longrightarrow>
      (\<exists>base v pol field_param.
           Quadrupole_Set_init name model_names initial_dict = Inr base \<and>
           (case initial_dict of None \<Rightarrow> v = 0 | Some d \<Rightarrow> map_of d (q_field_key Q) = Some v) \<and>
           pol = (if str_contains ''SCL'' name then - 1 else 1) \<and>
           field_param = fst (register_setting base (s_field_set_pv S)
                               (transform_raw (LinearTInv pol) v) (LinearTInv pol)) \<and>
           readbacks dev (s_field_readback_pv S) =
             Some \<lparr>rb_link = field_param, rb_noise = Some (AbsNoise (1 / 10 ^ 6)),
                    rb_transform = IdentityT,
                    rb_name_override = Some (replace_first ''PS_'' '''' name)\<rparr> \<and>
           settings dev (s_field_set_pv S) = Some field_param)) \<and>
   (\<forall>dev. SNS_Corrector_init K Corrector_init name corrector_model_name initial_dict = Inr dev \<longrightarrow>
      (\<exists>base v pol field_param.
           Corrector_init name corrector_model_name initial_dict = Inr base \<and>
           (case initial_dict of None \<Rightarrow> v = 0 | Some d \<Rightarrow> map_of d (c_field_key K) = Some v) \<and>
           pol = (if str_contains ''SCL'' name then - 1 else 1) \<and>
           field_param = fst (register_setting base (c_field_set_pv K)
                               (transform_raw (LinearTInv pol) v) (LinearTInv pol)) \<and>
           readbacks dev (c_field_readback_pv K) =
             Some \<lparr>rb_link = field_param, rb_noise = Some (AbsNoise (1 / 10 ^ 6)),
                    rb_transform = IdentityT,
                    rb_name_override = Some (replace_first ''PS_'' '''' name)\<rparr> \<and>
           (c_field_high_limit_pv K \<noteq> c_field_set_pv K \<and>
            c_field_low_limit_pv K \<noteq> c_field_set_pv K \<longrightarrow>
            settings dev (c_field_set_pv K) = Some field_param))) \<and>
   (\<forall>a b. name = a @ ''PS_'' @ b \<and> \<not> str_contains ''PS_'' (a @ ''PS'') \<longrightarrow>
      replace_first ''PS_'' '''' name = a @ b) \<and>
   (\<not> str_contains ''PS_'' name \<longrightarrow> replace_first ''PS_'' '''' name = name)"
proof -
  have r1: "replace_first ''PS_'' '''' name = a @ b"
    if n: "name = a @ ''PS_'' @ b \<and> \<not> str_contains ''PS_'' (a @ ''PS'')" for a b
  proof -
    from n have "\<not> str_contains ''PS_'' (a @ butlast ''PS_'')" by simp
    then have "replace_first ''PS_'' '''' (a @ ''PS_'' @ b) = a @ '''' @ b"
      by (intro replace_first_at_first) simp_all
    with n show ?thesis by simp
  qed
  have r2: "\<not> str_contains ''PS_'' name \<longrightarrow> replace_first ''PS_'' '''' name = name"
    by (simp add: replace_first_absent)
  show ?thesis
    using r1 r2
    by (intro conjI allI impI quadrupole_readback doublet_readback quadrupole_set_readback
          corrector_readback) blast+
qed


text \<open>A quadrupole, a doublet, a set and a corrector, with the names of an SNS linac.\<close>

theorem sns_magnet_readback_linked_and_renamed_witness:
  "(\<exists>dev p. SNS_Quadrupole_init quad_consts plain_init ''SCL_Mag:PS_QH01'' None
                (Some [(''dB/dr'', 2)]) = Inr dev \<and>
       p = \<lparr>par_name = ''B_Set'', par_raw = 2, par_transform = LinearTInv (- 1)\<rparr> \<and>
       readbacks dev ''B'' =
         Some \<lparr>rb_link = p, rb_noise = Some (AbsNoise (1 / 10 ^ 6)), rb_transform = IdentityT,
                rb_name_override = Some ''SCL_Mag:QH01''\<rparr> \<and>
       settings dev ''B_Set'' = Some p) \<and>
   (\<exists>dev p. SNS_Quadrupole_Doublet_init doublet_demo_consts plain_init_doublet
                ''MEBT_Mag:PS_QH05a07'' ''MEBT:QH05'' ''MEBT:QH07'' None = Inr dev \<and>
       p = \<lparr>par_name = ''B_Set'', par_raw = 0, par_transform = LinearTInv 1\<rparr> \<and>
       readbacks dev ''B'' =
         Some \<lparr>rb_link = p, rb_noise = Some (AbsNoise (1 / 10 ^ 6)), rb_transform = IdentityT,
                rb_name_override = Some ''MEBT_Mag:QH05a07''\<rparr> \<and>
       settings dev ''B_Set'' = Some p) \<and>
   (\<exists>dev p. SNS_Quadrupole_Set_init quad_consts set_demo_consts plain_init_set
                ''SCL_Mag:PS_QV30t32'' [''SCL:QV30'', ''SCL:QV31'']
                (Some [(''dB/dr'', 3)]) = Inr dev \<and>
       p = \<lparr>par_name = ''B_Set'', par_raw = 3, par_transform = LinearTInv (- 1)\<rparr> \<and>
       readbacks dev ''B'' =
         Some \<lparr>rb_link = p, rb_noise = Some (AbsNoise (1 / 10 ^ 6)), rb_transform = IdentityT,
                rb_name_override = Some ''SCL_Mag:QV30t32''\<rparr> \<and>
       settings dev ''B_Set'' = Some p) \<and>
   (\<exists>dev p. SNS_Corrector_init corr_consts plain_init_opt ''SCL_Mag:PS_DCH01'' None None
                = Inr dev \<and>
       p = \<lparr>par_name = ''B_Set'', par_raw = 0, par_transform = LinearTInv (- 1)\<rparr> \<and>
       readbacks dev ''B'' =
         Some \<lparr>rb_link = p, rb_noise = Some (AbsNoise (1 / 10 ^ 6)), rb_transform = IdentityT,
                rb_name_override = Some ''SCL_Mag:DCH01''\<rparr> \<and>
       settings dev ''B_Set'' = Some p)"
proof -
  have r: "replace_first ''PS_'' '''' ''SCL_Mag:PS_QH01'' = ''SCL_Mag:QH01''"
          "replace_first ''PS_'' '''' ''MEBT_Mag:PS_QH05a07'' = ''MEBT_Mag:QH05a07''"
          "replace_first ''PS_'' '''' ''SCL_Mag:PS_QV30t32'' = ''SCL_Mag:QV30t32''"
          "replace_first ''PS_'' '''' ''SCL_Mag:PS_DCH01'' = ''SCL_Mag:DCH01''"
    by simp_all
  obtain dq where dq: "SNS_Quadrupole_init quad_consts plain_init ''SCL_Mag:PS_QH01'' None
                (Some [(''dB/dr'', 2)]) = Inr dq"
    by (simp add: SNS_Quadrupole_init_def plain_init_def quad_consts_def dict_get_def
          register_setting_def register_readback_def Let_def)
  obtain dd where dd: "SNS_Quadrupole_Doublet_init doublet_demo_consts plain_init_doublet
                ''MEBT_Mag:PS_QH05a07'' ''MEBT:QH05'' ''MEBT:QH07'' None = Inr dd"
    by (simp add: SNS_Quadrupole_Doublet_init_def plain_init_doublet_def doublet_demo_consts_def
          register_setting_def register_readback_def Let_def)
  obtain ds where ds: "SNS_Quadrupole_Set_init quad_consts set_demo_consts plain_init_set
                ''SCL_Mag:PS_QV30t32'' [''SCL:QV30'', ''SCL:QV31'']
                (Some [(''dB/dr'', 3)]) = Inr ds"
    by (simp add: SNS_Quadrupole_Set_init_def plain_init_set_def quad_consts_def dict_get_def
          set_demo_consts_def register_setting_def register_readback_def Let_def)
  obtain dc where dc: "SNS_Corrector_init corr_consts plain_init_opt ''SCL_Mag:PS_DCH01''
                None None = Inr dc"
    by (simp add: SNS_Corrector_init_def plain_init_opt_def corr_consts_def list_get_def
          register_setting_def register_readback_def Let_def)
  note t1 = sns_magnet_readback_linked_and_renamed[where Q = quad_consts
             and Quadrupole_init = plain_init and name = "''SCL_Mag:PS_QH01''"
             and model_name = None and initial_dict = "Some [(''dB/dr'', 2)]"]
  note t2 = sns_magnet_readback_linked_and_renamed[where D = doublet_demo_consts
             and Quadrupole_Doublet_init = plain_init_doublet
             and name = "''MEBT_Mag:PS_QH05a07''" and h_model_name = "''MEBT:QH05''"
             and v_model_name = "''MEBT:QH07''" and initial_dict = None]
  note t3 = sns_magnet_readback_linked_and_renamed[where Q = quad_consts
             and S = set_demo_consts and Quadrupole_Set_init = plain_init_set
             and name = "''SCL_Mag:PS_QV30t32''" and model_names = "[''SCL:QV30'', ''SCL:QV31'']"
             and initial_dict = "Some [(''dB/dr'', 3)]"]
  note t4 = sns_magnet_readback_linked_and_renamed[where K = corr_consts
             and Corrector_init = plain_init_opt and name = "''SCL_Mag:PS_DCH01''"
             and corrector_model_name = None and initial_dict = None]
  from t1[THEN conjunct1, rule_format, OF dq] dq
  have 1: "\<exists>dev p. SNS_Quadrupole_init quad_consts plain_init ''SCL_Mag:PS_QH01'' None
                (Some [(''dB/dr'', 2)]) = Inr dev \<and>
       p = \<lparr>par_name = ''B_Set'', par_raw = 2, par_transform = LinearTInv (- 1)\<rparr> \<and>
       readbacks dev ''B'' =
         Some \<lparr>rb_link = p, rb_noise = Some (AbsNoise (1 / 10 ^ 6)), rb_transform = IdentityT,
                rb_name_override = Some ''SCL_Mag:QH01''\<rparr> \<and>
       settings dev ''B_Set'' = Some p"
    unfolding r by (auto simp: quad_consts_def plain_init_def register_setting_def Let_def)
  from t2[THEN conjunct2, THEN conjunct1, rule_format, OF dd] dd
  have 2: "\<exists>dev p. SNS_Quadrupole_Doublet_init doublet_demo_consts plain_init_doublet
                ''MEBT_Mag:PS_QH05a07'' ''MEBT:QH05'' ''MEBT:QH07'' None = Inr dev \<and>
       p = \<lparr>par_name = ''B_Set'', par_raw = 0, par_transform = LinearTInv 1\<rparr> \<and>
       readbacks dev ''B'' =
         Some \<lparr>rb_link = p, rb_noise = Some (AbsNoise (1 / 10 ^ 6)), rb_transform = IdentityT,
                rb_name_override = Some ''MEBT_Mag:QH05a07''\<rparr> \<and>
       settings dev ''B_Set'' = Some p"
    unfolding r by (auto simp: doublet_demo_consts_def plain_init_doublet_def register_setting_def Let_def)
  from t3[THEN conjunct2, THEN conjunct2, THEN conjunct1, rule_format, OF ds] ds
  have 3: "\<exists>dev p. SNS_Quadrupole_Set_init quad_consts set_demo_consts plain_init_set
                ''SCL_Mag:PS_QV30t32'' [''SCL:QV30'', ''SCL:QV31'']
                (Some [(''dB/dr'', 3)]) = Inr dev \<and>
       p = \<lparr>par_name = ''B_Set'', par_raw = 3, par_transform = LinearTInv (- 1)\<rparr> \<and>
       readbacks dev ''B'' =
         Some \<lparr>rb_link = p, rb_noise = Some (AbsNoise (1 / 10 ^ 6)), rb_transform = IdentityT,
                rb_name_override = Some ''SCL_Mag:QV30t32''\<rparr> \<and>
       settings dev ''B_Set'' = Some p"
    unfolding r
    by (auto simp: quad_consts_def set_demo_consts_def plain_init_set_def register_setting_def Let_def)
  from t4[THEN conjunct2, THEN conjunct2, THEN conjunct2, THEN conjunct1, rule_format, OF dc] dc
  have 4: "\<exists>dev p. SNS_Corrector_init corr_consts plain_init_opt ''SCL_Mag:PS_DCH01'' None None
                = Inr dev \<and>
       p = \<lparr>par_name = ''B_Set'', par_raw = 0, par_transform = LinearTInv (- 1)\<rparr> \<and>
       readbacks dev ''B'' =
         Some \<lparr>rb_link = p, rb_noise = Some (AbsNoise (1 / 10 ^ 6)), rb_transform = IdentityT,
                rb_name_override = Some ''SCL_Mag:DCH01''\<rparr> \<and>
       settings dev ''B_Set'' = Some p"
    unfolding r by (auto simp: corr_consts_def plain_init_opt_def register_setting_def Let_def)
  from 1 2 3 4 show ?thesis by blast
qed

section \<open>Properties of the child nodes\<close>

text \<open>
  C9, as amended. The two methods give the same result on every node dictionary and
  every \<open>paramsDict\<close>. Both leave the node as it is when \<open>'bunch'\<close> is absent; both set
  \<open>'current'\<close> to \<open>part_num / initial_particle_number * beam_current\<close> when the bunch
  holds at least one particle and \<open>paramsDict\<close> holds numbers under \<open>'beam_current'\<close>
  and \<open>'initial_particle_number'\<close>, the latter not zero; both set it to 0 when the bunch
  is empty. With a bunch of at least one particle and one of the two entries missing, or
  the initial number zero, both raise and set nothing.
\<close>

theorem btf_fc_bcm_equivalent:
  "BTF_FCclass_trackActions ps pd = BTF_BCMclass_trackActions ps pd \<and>
   (pd ''bunch'' = None \<longrightarrow> BTF_FCclass_trackActions ps pd = Inr ps) \<and>
   (\<forall>n bc k. pd ''bunch'' = Some (BunchV n) \<and> 0 < n \<and>
      pd ''beam_current'' = Some (NumV bc) \<and>
      pd ''initial_particle_number'' = Some (NumV k) \<and> k \<noteq> 0 \<longrightarrow>
      BTF_FCclass_trackActions ps pd = Inr (ps(''current'' \<mapsto> real n / k * bc))) \<and>
   (pd ''bunch'' = Some (BunchV 0) \<longrightarrow>
      BTF_FCclass_trackActions ps pd = Inr (ps(''current'' \<mapsto> 0))) \<and>
   (\<forall>n. pd ''bunch'' = Some (BunchV n) \<and> 0 < n \<and>
      (pd ''beam_current'' = None \<or> pd ''initial_particle_number'' = None \<or>
       pd ''initial_particle_number'' = Some (NumV 0)) \<longrightarrow>
      (\<exists>e. BTF_FCclass_trackActions ps pd = Inl e))"
  by (auto simp: BTF_FCclass_trackActions_def BTF_BCMclass_trackActions_def subscript_def
        getSizeGlobal_def py_truediv_def py_mul_def split: option.splits pyval.splits)

text \<open>Half of a thousand particles left, of a beam of 38 mA.\<close>

theorem btf_fc_bcm_equivalent_witness:
  "BTF_FCclass_trackActions [''current'' \<mapsto> 0]
     [''bunch'' \<mapsto> BunchV 500, ''beam_current'' \<mapsto> NumV (38 / 1000),
      ''initial_particle_number'' \<mapsto> NumV 1000]
     = Inr [''current'' \<mapsto> 500 / 1000 * (38 / 1000)] \<and>
   BTF_BCMclass_trackActions [''current'' \<mapsto> 0]
     [''bunch'' \<mapsto> BunchV 500, ''beam_current'' \<mapsto> NumV (38 / 1000),
      ''initial_particle_number'' \<mapsto> NumV 1000]
     = Inr [''current'' \<mapsto> 500 / 1000 * (38 / 1000)]"
proof -
  let ?pd = "[''bunch'' \<mapsto> BunchV 500, ''beam_current'' \<mapsto> NumV (38 / 1000),
      ''initial_particle_number'' \<mapsto> NumV 1000]"
  let ?ps = "[''current'' \<mapsto> 0 :: real]"
  note t = btf_fc_bcm_equivalent[of ?ps ?pd]
  have h: "?pd ''bunch'' = Some (BunchV 500) \<and> 0 < (500 :: nat) \<and>
      ?pd ''beam_current'' = Some (NumV (38 / 1000)) \<and>
      ?pd ''initial_particle_number'' = Some (NumV 1000) \<and> (1000 :: real) \<noteq> 0"
    by simp
  from t[THEN conjunct2, THEN conjunct2, THEN conjunct1, rule_format, OF h]
  have 1: "BTF_FCclass_trackActions ?ps ?pd = Inr (?ps(''current'' \<mapsto> real 500 / 1000 * (38 / 1000)))" .
  from t[THEN conjunct1] 1
  have 2: "BTF_BCMclass_trackActions ?ps ?pd = Inr (?ps(''current'' \<mapsto> real 500 / 1000 * (38 / 1000)))"
    by simp
  from 1 2 show ?thesis by simp
qed

text \<open>
  C9 as it was stated has both methods set \<open>'current'\<close> for every \<open>paramsDict\<close> whose
  bunch holds a particle. With a bunch of one particle and no \<open>'beam_current'\<close>, or with
  an initial particle number of zero, both raise and \<open>'current'\<close> is not set.
\<close>

theorem btf_current_not_set_counterexample:
  "BTF_FCclass_trackActions [''current'' \<mapsto> 5] [''bunch'' \<mapsto> BunchV 1]
      = Inl (KeyError ''beam_current'') \<and>
   BTF_BCMclass_trackActions [''current'' \<mapsto> 5] [''bunch'' \<mapsto> BunchV 1]
      = Inl (KeyError ''beam_current'') \<and>
   BTF_FCclass_trackActions [''current'' \<mapsto> 5]
      [''bunch'' \<mapsto> BunchV 1, ''beam_current'' \<mapsto> NumV 1, ''initial_particle_number'' \<mapsto> NumV 0]
      = Inl ZeroDivisionError \<and>
   BTF_BCMclass_trackActions [''current'' \<mapsto> 5]
      [''bunch'' \<mapsto> BunchV 1, ''beam_current'' \<mapsto> NumV 1, ''initial_particle_number'' \<mapsto> NumV 0]
      = Inl ZeroDivisionError"
  by (simp add: BTF_FCclass_trackActions_def BTF_BCMclass_trackActions_def subscript_def
        getSizeGlobal_def py_truediv_def py_mul_def)

section \<open>Properties of the startup of the quadrupole power supplies\<close>

lemma least_field_snoc:
  "least_field (xs @ [x]) = (if pf_gt (least_field xs) x then Fin x else least_field xs)"
proof (cases "xs = []")
  case True
  then show ?thesis by (simp add: least_field_def)
next
  case False
  then have M: "Min (insert x (set xs)) = min x (Min (set xs))"
    by (simp add: Min_insert)
  have l: "least_field xs = Fin (Min (set xs))"
    using False by (simp add: least_field_def)
  have "least_field (xs @ [x]) = Fin (Min (insert x (set xs)))"
    by (simp add: least_field_def)
  also have "\<dots> = Fin (min x (Min (set xs)))"
    by (simp only: M)
  also have "\<dots> = (if Min (set xs) > x then Fin x else Fin (Min (set xs)))"
    by (auto simp: min_def)
  finally show ?thesis
    by (simp only: l pf_gt.simps)
qed

lemma connected_append:
  "connected E (seen @ later) ps_name = connected E seen ps_name @ connected E later ps_name"
  by (simp add: connected_def)

lemma connected_single_attached:
  assumes "PyORBIT_Name c = Some ele_name" and "ele_name \<in> set (element_list E)"
      and "dB_dr E ele_name = Inr v" and "Power_Supply c = Some ps_name"
  shows "connected E [(name, c)] ps_name = [\<bar>v\<bar>]"
  using assms by (simp add: connected_def)

lemma connected_single_other:
  assumes "Power_Supply c \<noteq> Some k"
  shows "connected E [(name, c)] k = []"
  using assms by (simp add: connected_def split: option.splits)

lemma connected_single_outside:
  assumes "PyORBIT_Name c = Some ele_name" and "ele_name \<notin> set (element_list E)"
  shows "connected E [(name, c)] k = []"
  using assms by (simp add: connected_def)

lemma items_update: "set (AList.update k v al) \<subseteq> insert (k, v) (set al)"
  by (induction al) auto

lemma keys_init:
  "fst ` set (fold (\<lambda>name ps_quads. AList.update name v ps_quads) names acc)
     = set names \<union> fst ` set acc"
  by (induction names arbitrary: acc) (auto simp: dom_update)

lemma distinct_init:
  "distinct (map fst acc) \<Longrightarrow>
   distinct (map fst (fold (\<lambda>name ps_quads. AList.update name v ps_quads) names acc))"
  by (induction names arbitrary: acc) (auto simp: distinct_update)

lemma map_of_init:
  "map_of (fold (\<lambda>name ps_quads. AList.update name v ps_quads) names acc) k = Some d
     \<Longrightarrow> d = v \<or> map_of acc k = Some d"
proof (induction names arbitrary: acc)
  case Nil
  then show ?case by simp
next
  case (Cons a names)
  from Cons.prems have "map_of (fold (\<lambda>name ps_quads. AList.update name v ps_quads) names
                          (AList.update a v acc)) k = Some d"
    by simp
  from Cons.IH[OF this] show ?case
    by (auto simp: update_conv' split: if_splits)
qed

lemma ps_inv_init:
  "ps_inv E devices_dict quad_ps_names []
     (fold (\<lambda>name ps_quads. AList.update name \<lparr>quads = [], min_field = PInf\<rparr> ps_quads)
        quad_ps_names [])"
  unfolding ps_inv_def
proof (intro conjI allI impI)
  show "distinct (map fst (fold (\<lambda>name. AList.update name \<lparr>quads = [], min_field = PInf\<rparr>)
          quad_ps_names []))"
    by (rule distinct_init) simp
next
  show "fst ` set (fold (\<lambda>name. AList.update name \<lparr>quads = [], min_field = PInf\<rparr>)
          quad_ps_names []) = set quad_ps_names"
    by (simp add: keys_init)
next
  fix ps_name d
  assume "map_of (fold (\<lambda>name. AList.update name \<lparr>quads = [], min_field = PInf\<rparr>)
          quad_ps_names []) ps_name = Some d"
  then have d: "d = \<lparr>quads = [], min_field = PInf\<rparr>"
    using map_of_init by fastforce
  show "min_field d = least_field (connected E [] ps_name)"
    by (simp add: d least_field_def connected_def)
  show "(quads d = []) = (connected E [] ps_name = [])"
    by (simp add: d connected_def)
  show "\<forall>(qn, qm)\<in>set (quads d). from_config E devices_dict [] ps_name qn qm"
    by (simp add: d)
qed

lemma from_config_mono:
  "from_config E devices_dict seen ps_name qn qm \<Longrightarrow>
   from_config E devices_dict (seen @ later) ps_name qn qm"
  unfolding from_config_def by auto

lemma attach_quad_inv:
  assumes inv: "ps_inv E devices_dict quad_ps_names seen ps_quads"
      and el: "PyORBIT_Name c = Some ele_name" "ele_name \<in> set (element_list E)"
      and v: "dB_dr E ele_name = Inr v"
      and sup: "Power_Supply c = Some ps_name"
      and qm: "from_config E devices_dict [(name, c)] ps_name name qm"
      and r: "attach_quad ps_name name qm \<bar>v\<bar> ps_quads = Inr ps_quads'"
  shows "ps_inv E devices_dict quad_ps_names (seen @ [(name, c)]) ps_quads'"
proof -
  from r obtain d where d: "map_of ps_quads ps_name = Some d"
    by (auto simp: attach_quad_def split: option.splits)
  let ?x = "\<bar>v\<bar>"
  let ?d1 = "d\<lparr>quads := AList.update name qm (quads d)\<rparr>"
  let ?d2 = "if pf_gt (min_field ?d1) ?x then ?d1\<lparr>min_field := Fin ?x\<rparr> else ?d1"
  let ?P = "AList.update ps_name ?d2 ps_quads"
  have P: "ps_quads' = ?P"
    using r d by (simp add: attach_quad_def Let_def)
  from d have ps: "ps_name \<in> fst ` set ps_quads"
    by (metis domI dom_map_of_conv_image_fst)
  from inv d have dm: "min_field d = least_field (connected E seen ps_name)"
    and dq: "\<forall>(qn, qm) \<in> set (quads d). from_config E devices_dict seen ps_name qn qm"
    by (simp_all add: ps_inv_def)
  have c_same: "connected E (seen @ [(name, c)]) ps_name = connected E seen ps_name @ [?x]"
    by (simp only: connected_append connected_single_attached[OF el v sup])
  have c_other: "connected E (seen @ [(name, c)]) k = connected E seen k" if "k \<noteq> ps_name" for k
  proof -
    from that sup have "Power_Supply c \<noteq> Some k" by simp
    then show ?thesis by (simp add: connected_append connected_single_other)
  qed
  have m2: "min_field ?d2 = least_field (connected E seen ps_name @ [?x])"
    by (simp add: least_field_snoc dm)
  have q2: "quads ?d2 = AList.update name qm (quads d)" by simp
  have old: "from_config E devices_dict (seen @ [(name, c)]) k qn m"
    if "from_config E devices_dict seen k qn m" for k qn m
    using that by (rule from_config_mono)
  have new: "from_config E devices_dict (seen @ [(name, c)]) ps_name name qm"
    using qm unfolding from_config_def by auto
  have "ps_inv E devices_dict quad_ps_names (seen @ [(name, c)]) ?P"
    unfolding ps_inv_def
  proof (intro conjI allI impI)
    show "distinct (map fst ?P)"
      using inv by (simp add: ps_inv_def distinct_update)
  next
    show "fst ` set ?P = set quad_ps_names"
      using inv ps by (auto simp: ps_inv_def dom_update)
  next
    fix k e assume ke: "map_of ?P k = Some e"
    show "min_field e = least_field (connected E (seen @ [(name, c)]) k)"
    proof (cases "k = ps_name")
      case True
      with ke have "e = ?d2" by (simp add: update_conv')
      then show ?thesis using True m2 c_same by simp
    next
      case False
      with ke have "map_of ps_quads k = Some e" by (simp add: update_conv')
      with inv False show ?thesis by (simp add: ps_inv_def c_other)
    qed
    show "(quads e = []) = (connected E (seen @ [(name, c)]) k = [])"
    proof (cases "k = ps_name")
      case True
      with ke have "e = ?d2" by (simp add: update_conv')
      then have "quads e = AList.update name qm (quads d)" by simp
      then show ?thesis using True c_same by simp
    next
      case False
      with ke have "map_of ps_quads k = Some e" by (simp add: update_conv')
      with inv False show ?thesis by (simp add: ps_inv_def c_other)
    qed
    show "\<forall>(qn, m)\<in>set (quads e). from_config E devices_dict (seen @ [(name, c)]) k qn m"
    proof (cases "k = ps_name")
      case True
      with ke have "e = ?d2" by (simp add: update_conv')
      then have qe: "quads e = AList.update name qm (quads d)" by simp
      show ?thesis
      proof (intro ballI, clarify)
        fix qn m assume "(qn, m) \<in> set (quads e)"
        with qe items_update[of name qm "quads d"]
        have "(qn, m) = (name, qm) \<or> (qn, m) \<in> set (quads d)" by auto
        then show "from_config E devices_dict (seen @ [(name, c)]) k qn m"
          using True new old dq by auto
      qed
    next
      case False
      with ke have "map_of ps_quads k = Some e" by (simp add: update_conv')
      with inv have "\<forall>(qn, m)\<in>set (quads e). from_config E devices_dict seen k qn m"
        by (simp add: ps_inv_def)
      then show ?thesis using old by auto
    qed
  qed
  with P show ?thesis by simp
qed

lemma ps_inv_skip:
  assumes "ps_inv E devices_dict quad_ps_names seen ps_quads"
      and "\<And>k. connected E [x] k = []"
  shows "ps_inv E devices_dict quad_ps_names (seen @ [x]) ps_quads"
  using assms from_config_mono[of E devices_dict seen _ _ _ "[x]"]
  unfolding ps_inv_def connected_append by fastforce

lemma add_quad_inv:
  assumes inv: "ps_inv E devices_dict quad_ps_names seen ps_quads"
      and r: "add_quad E devices_dict quad_ps_names x ps_quads = Inr ps_quads'"
  shows "ps_inv E devices_dict quad_ps_names (seen @ [x]) ps_quads'"
proof -
  obtain name c where x: "x = (name, c)" by (cases x)
  from r x obtain ele_name polarity where
    el: "PyORBIT_Name c = Some ele_name" and po: "Polarity c = Some polarity"
    by (auto simp: add_quad_def split: option.splits)
  show ?thesis
  proof (cases "ele_name \<in> set (element_list E)")
    case False
    then have "ps_quads' = ps_quads" using r x el po by (simp add: add_quad_def Let_def)
    moreover have "ps_inv E devices_dict quad_ps_names (seen @ [x]) ps_quads"
      using inv x False el by (intro ps_inv_skip) (simp_all add: connected_single_outside)
    ultimately show ?thesis by simp
  next
    case inl: True
    with r x el po obtain v where v: "dB_dr E ele_name = Inr v"
      by (auto simp: add_quad_def split: sum.splits)
    show ?thesis
    proof (cases "Power_Supply c")
      case None
      then have "ps_quads' = ps_quads" using r x el po inl v by (simp add: add_quad_def Let_def)
      moreover have "ps_inv E devices_dict quad_ps_names (seen @ [x]) ps_quads"
        using inv x None by (intro ps_inv_skip) (simp_all add: connected_single_other)
      ultimately show ?thesis by simp
    next
      case (Some ps_name)
      show ?thesis
      proof (cases "ps_name \<in> set quad_ps_names")
        case False
        then have same: "ps_quads' = ps_quads"
          using r x el po inl v Some by (simp add: add_quad_def Let_def)
        have keys: "fst ` set ps_quads = set quad_ps_names"
          using inv by (simp add: ps_inv_def)
        have c_other: "connected E (seen @ [x]) k = connected E seen k"
          if "k \<in> set quad_ps_names" for k
        proof -
          from that False Some have "Power_Supply c \<noteq> Some k" by auto
          then show ?thesis using x by (simp add: connected_append connected_single_other)
        qed
        have "k \<in> set quad_ps_names" if "map_of ps_quads k = Some e" for k e
          using that keys by (metis domI dom_map_of_conv_image_fst)
        then have "ps_inv E devices_dict quad_ps_names (seen @ [x]) ps_quads"
          using inv c_other from_config_mono[of E devices_dict seen _ _ _ "[x]"]
          unfolding ps_inv_def by fastforce
        with same show ?thesis by simp
      next
        case True
        have a: "ps_inv E devices_dict quad_ps_names (seen @ [(name, c)]) ps_quads'"
          if "from_config E devices_dict [(name, c)] ps_name name qm"
            and "attach_quad ps_name name qm \<bar>v\<bar> ps_quads = Inr ps_quads'" for qm
          using attach_quad_inv[OF inv el inl v Some that] .
        show ?thesis
        proof (cases "Power_Shunt c")
          case None
          let ?qm = "\<lparr>or_name = ele_name, shunt = ''none'', qm_dB_dr = \<bar>v\<bar>,
                       qm_polarity = polarity\<rparr>"
          have "attach_quad ps_name name ?qm \<bar>v\<bar> ps_quads = Inr ps_quads'"
            using r x el po inl v Some True None by (simp add: add_quad_def Let_def)
          moreover have "from_config E devices_dict [(name, c)] ps_name name ?qm"
            using el inl v Some by (simp add: from_config_def)
          ultimately show ?thesis using a x by simp
        next
          case sh: (Some shunt_name)
          with r x el po inl v Some True obtain shunt_names where
            sn: "dd_Quadrupole_Power_Shunt devices_dict = Some shunt_names"
            by (auto simp: add_quad_def Let_def split: option.splits)
          show ?thesis
          proof (cases "shunt_name \<in> set shunt_names")
            case yes: True
            let ?qm = "\<lparr>or_name = ele_name, shunt = shunt_name, qm_dB_dr = \<bar>v\<bar>,
                         qm_polarity = polarity\<rparr>"
            have "attach_quad ps_name name ?qm \<bar>v\<bar> ps_quads = Inr ps_quads'"
              using r x el po inl v Some True sh sn yes by (simp add: add_quad_def Let_def)
            moreover have "from_config E devices_dict [(name, c)] ps_name name ?qm"
              using el inl v Some sh sn yes by (simp add: from_config_def)
            ultimately show ?thesis using a x by simp
          next
            case no: False
            let ?qm = "\<lparr>or_name = ele_name, shunt = ''none'', qm_dB_dr = \<bar>v\<bar>,
                         qm_polarity = polarity\<rparr>"
            have "attach_quad ps_name name ?qm \<bar>v\<bar> ps_quads = Inr ps_quads'"
              using r x el po inl v Some True sh sn no by (simp add: add_quad_def Let_def)
            moreover have "from_config E devices_dict [(name, c)] ps_name name ?qm"
              using el inl v Some by (simp add: from_config_def)
            ultimately show ?thesis using a x by simp
          qed
        qed
      qed
    qed
  qed
qed

lemma for_each_add_quad_inv:
  "ps_inv E devices_dict quad_ps_names seen ps_quads \<Longrightarrow>
   for_each (add_quad E devices_dict quad_ps_names) xs ps_quads = Inr ps_quads' \<Longrightarrow>
   ps_inv E devices_dict quad_ps_names (seen @ xs) ps_quads'"
proof (induction xs arbitrary: seen ps_quads)
  case Nil
  then show ?case by simp
next
  case (Cons x xs)
  from Cons.prems(2) obtain P1 where
    p1: "add_quad E devices_dict quad_ps_names x ps_quads = Inr P1"
    and p2: "for_each (add_quad E devices_dict quad_ps_names) xs P1 = Inr ps_quads'"
    by (auto split: sum.splits)
  from add_quad_inv[OF Cons.prems(1) p1]
  have "ps_inv E devices_dict quad_ps_names (seen @ [x]) P1" .
  from Cons.IH[OF this p2] show ?case by simp
qed

lemma quad_startup_inv:
  assumes "quad_startup E devices_dict = Inr devs"
  shows "\<exists>quad_ps_names quads_cfg ps_quads.
           dd_Quadrupole_Power_Supply devices_dict = Some quad_ps_names \<and>
           dd_Quadrupole devices_dict = Some quads_cfg \<and>
           devs = concat (map ps_devices ps_quads) \<and>
           ps_inv E devices_dict quad_ps_names quads_cfg ps_quads"
proof -
  from assms obtain names cfg P where
    n: "dd_Quadrupole_Power_Supply devices_dict = Some names"
    and c: "dd_Quadrupole devices_dict = Some cfg"
    and f: "for_each (add_quad E devices_dict names) cfg
              (fold (\<lambda>name ps_quads. AList.update name \<lparr>quads = [], min_field = PInf\<rparr> ps_quads)
                 names []) = Inr P"
    and d: "devs = concat (map ps_devices P)"
    by (auto simp: quad_startup_def Let_def split: option.splits sum.splits)
  from for_each_add_quad_inv[OF ps_inv_init f]
  have "ps_inv E devices_dict names cfg P" by simp
  with n c d show ?thesis by blast
qed


lemma ps_inv_entry:
  assumes "ps_inv E devices_dict quad_ps_names seen ps_quads" and "(ps_name, d) \<in> set ps_quads"
  shows "min_field d = least_field (connected E seen ps_name)"
    and "quads d = [] \<longleftrightarrow> connected E seen ps_name = []"
    and "\<And>qn qm. (qn, qm) \<in> set (quads d) \<Longrightarrow> from_config E devices_dict seen ps_name qn qm"
proof -
  from assms have m: "map_of ps_quads ps_name = Some d"
    by (simp add: ps_inv_def)
  with assms(1) show "min_field d = least_field (connected E seen ps_name)"
    and "quads d = [] \<longleftrightarrow> connected E seen ps_name = []"
    by (simp_all add: ps_inv_def)
  fix qn qm assume "(qn, qm) \<in> set (quads d)"
  with assms(1) m show "from_config E devices_dict seen ps_name qn qm"
    unfolding ps_inv_def by blast
qed

lemma connected_member:
  assumes "(name, c) \<in> set quads_cfg" and "PyORBIT_Name c = Some ele_name"
      and "ele_name \<in> set (element_list E)" and "dB_dr E ele_name = Inr v"
      and "Power_Supply c = Some ps_name"
  shows "\<bar>v\<bar> \<in> set (connected E quads_cfg ps_name)"
proof -
  from assms(1) obtain xs ys where "quads_cfg = xs @ [(name, c)] @ ys"
    by (metis append_Cons append_Nil split_list)
  then have "connected E quads_cfg ps_name =
               connected E xs ps_name @ [\<bar>v\<bar>] @ connected E ys ps_name"
    by (simp only: connected_append connected_single_attached[OF assms(2-5)])
  then show ?thesis by simp
qed

lemma supply_in_ps_devices:
  "Quadrupole_Power_Supply ps_name f \<in> set (ps_devices (k, d)) \<longleftrightarrow>
     k = ps_name \<and> quads d \<noteq> [] \<and> f = min_field d"
  by (auto simp: ps_devices_def quad_devices_def Let_def split: if_splits)

lemma shunt_in_ps_devices:
  "Quadrupole_Power_Shunt shunt_name f \<in> set (ps_devices (k, d)) \<Longrightarrow>
     \<exists>qn qm. (qn, qm) \<in> set (quads d) \<and> shunt qm = shunt_name \<and> shunt qm \<noteq> ''none'' \<and>
             f = pf_rsub (qm_dB_dr qm) (min_field d)"
  by (auto simp: ps_devices_def quad_devices_def Let_def split: if_splits)

text \<open>
  C8. Whenever the startup code runs through, of the devices it constructs: every
  \<open>Quadrupole_Power_Supply\<close> has at least one connected quadrupole and is given the
  minimum of the absolute initial field strengths of the quadrupoles connected to it;
  every power supply of the configuration with a connected quadrupole is constructed so;
  and every \<open>Quadrupole_Power_Shunt\<close> is the shunt of a configured quadrupole in the
  lattice and is given that quadrupole's absolute field minus the field of the power
  supply the quadrupole is connected to, which is not negative.
\<close>

theorem power_supply_field_is_least:
  "\<forall>devs quads_cfg.
     quad_startup E devices_dict = Inr devs \<and> dd_Quadrupole devices_dict = Some quads_cfg \<longrightarrow>
     (\<forall>ps_name f. Quadrupole_Power_Supply ps_name f \<in> set devs \<longrightarrow>
        connected E quads_cfg ps_name \<noteq> [] \<and>
        f = Fin (Min (set (connected E quads_cfg ps_name)))) \<and>
     (\<forall>ps_name quad_ps_names.
        dd_Quadrupole_Power_Supply devices_dict = Some quad_ps_names \<and>
        ps_name \<in> set quad_ps_names \<and> connected E quads_cfg ps_name \<noteq> [] \<longrightarrow>
        Quadrupole_Power_Supply ps_name (Fin (Min (set (connected E quads_cfg ps_name))))
          \<in> set devs) \<and>
     (\<forall>shunt_name f. Quadrupole_Power_Shunt shunt_name f \<in> set devs \<longrightarrow>
        (\<exists>quad_name c ele_name v ps_name.
           (quad_name, c) \<in> set quads_cfg \<and>
           PyORBIT_Name c = Some ele_name \<and> ele_name \<in> set (element_list E) \<and>
           dB_dr E ele_name = Inr v \<and>
           Power_Supply c = Some ps_name \<and> Power_Shunt c = Some shunt_name \<and>
           Quadrupole_Power_Supply ps_name (Fin (Min (set (connected E quads_cfg ps_name))))
             \<in> set devs \<and>
           f = Fin (\<bar>v\<bar> - Min (set (connected E quads_cfg ps_name))) \<and>
           0 \<le> \<bar>v\<bar> - Min (set (connected E quads_cfg ps_name))))"
proof (intro allI impI)
  fix devs quads_cfg
  assume s: "quad_startup E devices_dict = Inr devs \<and> dd_Quadrupole devices_dict = Some quads_cfg"
  with quad_startup_inv[of E devices_dict devs] obtain names P where
    n: "dd_Quadrupole_Power_Supply devices_dict = Some names"
    and P: "devs = concat (map ps_devices P)"
    and inv: "ps_inv E devices_dict names quads_cfg P"
    by auto
  have a: "connected E quads_cfg ps_name \<noteq> [] \<and>
           f = Fin (Min (set (connected E quads_cfg ps_name)))"
    if "Quadrupole_Power_Supply ps_name f \<in> set devs" for ps_name f
  proof -
    from that P obtain k d where kd: "(k, d) \<in> set P"
      and "Quadrupole_Power_Supply ps_name f \<in> set (ps_devices (k, d))" by auto
    then have k: "k = ps_name" and q: "quads d \<noteq> []" and f: "f = min_field d"
      by (simp_all add: supply_in_ps_devices)
    from ps_inv_entry(1,2)[OF inv kd] q f k show ?thesis
      by (simp add: least_field_def)
  qed
  have b: "Quadrupole_Power_Supply ps_name (Fin (Min (set (connected E quads_cfg ps_name))))
           \<in> set devs"
    if "ps_name \<in> set names" and "connected E quads_cfg ps_name \<noteq> []" for ps_name
  proof -
    from that(1) inv have "ps_name \<in> fst ` set P" by (simp add: ps_inv_def)
    then obtain d where kd: "(ps_name, d) \<in> set P" by auto
    from ps_inv_entry(1,2)[OF inv kd] that(2)
    have "quads d \<noteq> []" "min_field d = Fin (Min (set (connected E quads_cfg ps_name)))"
      by (simp_all add: least_field_def)
    then have "Quadrupole_Power_Supply ps_name (Fin (Min (set (connected E quads_cfg ps_name))))
           \<in> set (ps_devices (ps_name, d))"
      by (simp add: supply_in_ps_devices)
    with kd P show ?thesis by force
  qed
  have c: "\<exists>quad_name c ele_name v ps_name.
           (quad_name, c) \<in> set quads_cfg \<and>
           PyORBIT_Name c = Some ele_name \<and> ele_name \<in> set (element_list E) \<and>
           dB_dr E ele_name = Inr v \<and>
           Power_Supply c = Some ps_name \<and> Power_Shunt c = Some shunt_name \<and>
           Quadrupole_Power_Supply ps_name (Fin (Min (set (connected E quads_cfg ps_name))))
             \<in> set devs \<and>
           f = Fin (\<bar>v\<bar> - Min (set (connected E quads_cfg ps_name))) \<and>
           0 \<le> \<bar>v\<bar> - Min (set (connected E quads_cfg ps_name))"
    if "Quadrupole_Power_Shunt shunt_name f \<in> set devs" for shunt_name f
  proof -
    from that P obtain k d where kd: "(k, d) \<in> set P"
      and "Quadrupole_Power_Shunt shunt_name f \<in> set (ps_devices (k, d))" by auto
    then obtain qn qm where qm: "(qn, qm) \<in> set (quads d)"
      and sh: "shunt qm = shunt_name" "shunt qm \<noteq> ''none''"
      and f: "f = pf_rsub (qm_dB_dr qm) (min_field d)"
      using shunt_in_ps_devices by blast
    from ps_inv_entry(3)[OF inv kd qm] sh obtain cfg v where
      c1: "(qn, cfg) \<in> set quads_cfg" "PyORBIT_Name cfg = Some (or_name qm)"
          "or_name qm \<in> set (element_list E)" "dB_dr E (or_name qm) = Inr v"
          "Power_Supply cfg = Some k"
      and c2: "qm_dB_dr qm = \<bar>v\<bar>" "Power_Shunt cfg = Some shunt_name"
      unfolding from_config_def by auto
    let ?L = "connected E quads_cfg k"
    from connected_member[OF c1] have x: "\<bar>v\<bar> \<in> set ?L" .
    then have ne: "?L \<noteq> []" by auto
    with ps_inv_entry(1)[OF inv kd] have m: "min_field d = Fin (Min (set ?L))"
      by (simp add: least_field_def)
    from x have le: "Min (set ?L) \<le> \<bar>v\<bar>" by simp
    from kd inv have "k \<in> set names" by (force simp: ps_inv_def)
    from b[OF this ne] have sup: "Quadrupole_Power_Supply k (Fin (Min (set ?L))) \<in> set devs" .
    from f m c2(1) have "f = Fin (\<bar>v\<bar> - Min (set ?L))" by simp
    with c1 c2(2) sup le show ?thesis by (intro exI[of _ qn] exI[of _ cfg] exI[of _ "or_name qm"]
        exI[of _ v] exI[of _ k]) simp
  qed
  from a b c n show "(\<forall>ps_name f. Quadrupole_Power_Supply ps_name f \<in> set devs \<longrightarrow>
        connected E quads_cfg ps_name \<noteq> [] \<and>
        f = Fin (Min (set (connected E quads_cfg ps_name)))) \<and>
     (\<forall>ps_name quad_ps_names.
        dd_Quadrupole_Power_Supply devices_dict = Some quad_ps_names \<and>
        ps_name \<in> set quad_ps_names \<and> connected E quads_cfg ps_name \<noteq> [] \<longrightarrow>
        Quadrupole_Power_Supply ps_name (Fin (Min (set (connected E quads_cfg ps_name))))
          \<in> set devs) \<and>
     (\<forall>shunt_name f. Quadrupole_Power_Shunt shunt_name f \<in> set devs \<longrightarrow>
        (\<exists>quad_name c ele_name v ps_name.
           (quad_name, c) \<in> set quads_cfg \<and>
           PyORBIT_Name c = Some ele_name \<and> ele_name \<in> set (element_list E) \<and>
           dB_dr E ele_name = Inr v \<and>
           Power_Supply c = Some ps_name \<and> Power_Shunt c = Some shunt_name \<and>
           Quadrupole_Power_Supply ps_name (Fin (Min (set (connected E quads_cfg ps_name))))
             \<in> set devs \<and>
           f = Fin (\<bar>v\<bar> - Min (set (connected E quads_cfg ps_name))) \<and>
           0 \<le> \<bar>v\<bar> - Min (set (connected E quads_cfg ps_name))))"
    by simp
qed

text \<open>
  Two quadrupoles of fields 5 and 2 on one power supply, the first with a shunt: the
  power supply gets 2 and the shunt 3.
\<close>

theorem power_supply_field_is_least_witness:
  "quad_startup demo_env demo_devices_dict =
     Inr [Quadrupole_Power_Supply ''PS_A'' (Fin 2),
          Quadrupole_Power_Shunt ''Sh1'' (Fin 3),
          Quadrupole ''QH01'' ''Q1'' ''PS_A'' (Some ''Sh1'') 1,
          Quadrupole ''QV02'' ''Q2'' ''PS_A'' None (- 1)] \<and>
   connected demo_env demo_quads ''PS_A'' = [5, 2] \<and>
   Fin 2 = Fin (Min (set (connected demo_env demo_quads ''PS_A''))) \<and>
   (\<exists>v. Fin 3 = Fin (\<bar>v\<bar> - Min (set (connected demo_env demo_quads ''PS_A''))) \<and>
        0 \<le> \<bar>v\<bar> - Min (set (connected demo_env demo_quads ''PS_A'')))"
proof -
  have e: "quad_startup demo_env demo_devices_dict =
     Inr [Quadrupole_Power_Supply ''PS_A'' (Fin 2),
          Quadrupole_Power_Shunt ''Sh1'' (Fin 3),
          Quadrupole ''QH01'' ''Q1'' ''PS_A'' (Some ''Sh1'') 1,
          Quadrupole ''QV02'' ''Q2'' ''PS_A'' None (- 1)]"
    by (simp add: quad_startup_def demo_env_def demo_devices_dict_def demo_quads_def
          add_quad_def attach_quad_def ps_devices_def quad_devices_def Let_def)
  have q: "dd_Quadrupole demo_devices_dict = Some demo_quads"
    by (simp add: demo_devices_dict_def)
  have c: "connected demo_env demo_quads ''PS_A'' = [5, 2]"
    by (simp add: connected_def demo_env_def demo_quads_def)
  note t = power_supply_field_is_least[of demo_env demo_devices_dict, rule_format,
             OF conjI[OF e q]]
  have 1: "Fin 2 = Fin (Min (set (connected demo_env demo_quads ''PS_A'')))"
    using t[THEN conjunct1, rule_format, of "''PS_A''" "Fin 2"] by simp
  have 2: "\<exists>v. Fin 3 = Fin (\<bar>v\<bar> - Min (set (connected demo_env demo_quads ''PS_A''))) \<and>
        0 \<le> \<bar>v\<bar> - Min (set (connected demo_env demo_quads ''PS_A''))"
  proof -
    from t[THEN conjunct2, THEN conjunct2, rule_format, of "''Sh1''" "Fin 3"]
    obtain quad_name c ele_name v ps_name where
      h: "(quad_name, c) \<in> set demo_quads" "Power_Supply c = Some ps_name"
         "Power_Shunt c = Some ''Sh1''"
         "Fin 3 = Fin (\<bar>v\<bar> - Min (set (connected demo_env demo_quads ps_name)))"
         "0 \<le> \<bar>v\<bar> - Min (set (connected demo_env demo_quads ps_name))"
      by auto
    from h(1,2,3) have "ps_name = ''PS_A''"
      by (auto simp: demo_quads_def)
    with h(4,5) show ?thesis by blast
  qed
  from e c 1 2 show ?thesis by blast
qed

end
